theory Spec2Isabelle
  imports Complex_Main "HOL-Library.Sublist"
begin

section \<open>JavaScript values\<close>

text \<open>
  The values the handlers and the app pass around are JSON-shaped JavaScript values.
  Numbers are modelled as exact rationals; an object is an association list in which the
  first binding of a key is the one a property read returns.
\<close>

datatype jsval =
    JUndefined
  | JNull
  | JBool bool
  | JNum rat
  | JStr string
  | JArr "jsval list"
  | JObj "(string \<times> jsval) list"

text \<open>
  What a \<^verbatim>\<open>throw\<close> carries: an engine \<^verbatim>\<open>TypeError\<close> (a property read on \<^verbatim>\<open>null\<close> or
  \<^verbatim>\<open>undefined\<close>, a call of something that is not a function), the
  \<^verbatim>\<open>InvalidCharacterError\<close> of \<^verbatim>\<open>atob\<close>, the \<^verbatim>\<open>SyntaxError\<close> of \<^verbatim>\<open>JSON.parse\<close> with its
  message, or any other error object, with its message.
\<close>

datatype exn = TypeError | InvalidCharacterError | SyntaxError string | Error string

text \<open>
  The functions of the JavaScript platform that the code calls and that are not part of
  the repository. They are parameters of the model.
  \<^item> \<open>Number_toString\<close>: the decimal text of a number;
  \<^item> \<open>String_toNumber\<close>: \<^verbatim>\<open>Number(s)\<close> on a string, \<open>None\<close> for \<^verbatim>\<open>NaN\<close>;
  \<^item> \<open>JSON_parse\<close>: \<open>Inl\<close> carries the message of the \<^verbatim>\<open>SyntaxError\<close> thrown;
  \<^item> \<open>JSON_stringify\<close>;
  \<^item> \<open>atob\<close>, \<open>decodeURIComponent\<close>: \<open>None\<close> where they throw;
  \<^item> \<open>btoa\<close> is modelled below (\<open>btoa\<close>), not taken from here;
  \<^item> \<open>SHA256\<close>: \<^verbatim>\<open>crypto.subtle.digest("SHA-256", _)\<close>, bytes to bytes;
  \<^item> \<open>TextEncoder_encode\<close>: the UTF-8 bytes of a string;
  \<^item> \<open>URLSearchParams_toString\<close>: the \<^verbatim>\<open>application/x-www-form-urlencoded\<close> text of a list
    of names and values;
  \<^item> \<open>TypeError_message\<close>, \<open>InvalidCharacterError_message\<close>: the engine's message texts.
\<close>

record platform =
  Number_toString :: "rat \<Rightarrow> string"
  String_toNumber :: "string \<Rightarrow> rat option"
  JSON_parse :: "string \<Rightarrow> string + jsval"
  JSON_stringify :: "jsval \<Rightarrow> string"
  atob :: "string \<Rightarrow> string option"
  decodeURIComponent :: "string \<Rightarrow> string option"
  SHA256 :: "string \<Rightarrow> string"
  TextEncoder_encode :: "string \<Rightarrow> string"
  URLSearchParams_toString :: "(string \<times> string) list \<Rightarrow> string"
  TypeError_message :: string
  InvalidCharacterError_message :: string

text \<open>\<^verbatim>\<open>!!v\<close>: the falsy values are undefined, null, false, 0 and the empty string.\<close>

fun truthy :: "jsval \<Rightarrow> bool" where
  "truthy JUndefined = False"
| "truthy JNull = False"
| "truthy (JBool b) = b"
| "truthy (JNum n) = (n \<noteq> 0)"
| "truthy (JStr s) = (s \<noteq> [])"
| "truthy (JArr xs) = True"
| "truthy (JObj kvs) = True"

text \<open>\<^verbatim>\<open>a || b\<close> on values.\<close>

definition js_or :: "jsval \<Rightarrow> jsval \<Rightarrow> jsval" where
  "js_or a b = (if truthy a then a else b)"

text \<open>\<^verbatim>\<open>v === null || v === undefined\<close>\<close>

fun nullish :: "jsval \<Rightarrow> bool" where
  "nullish JUndefined = True"
| "nullish JNull = True"
| "nullish _ = False"

text \<open>
  \<^verbatim>\<open>v.k\<close> for the property names this code reads (none of them is a member of a
  prototype, except \<^verbatim>\<open>length\<close> of arrays and strings): a \<^verbatim>\<open>TypeError\<close> on \<^verbatim>\<open>null\<close> and
  \<^verbatim>\<open>undefined\<close>, the own property of an object, \<^verbatim>\<open>undefined\<close> otherwise.
\<close>

fun js_get :: "jsval \<Rightarrow> string \<Rightarrow> exn + jsval" where
  "js_get JUndefined k = Inl TypeError"
| "js_get JNull k = Inl TypeError"
| "js_get (JObj kvs) k = Inr (case map_of kvs k of Some v \<Rightarrow> v | None \<Rightarrow> JUndefined)"
| "js_get (JArr xs) k = Inr (if k = ''length'' then JNum (of_nat (length xs)) else JUndefined)"
| "js_get (JStr s) k = Inr (if k = ''length'' then JNum (of_nat (length s)) else JUndefined)"
| "js_get (JBool b) k = Inr JUndefined"
| "js_get (JNum n) k = Inr JUndefined"

text \<open>\<^verbatim>\<open>v?.k\<close>: \<^verbatim>\<open>undefined\<close> on \<^verbatim>\<open>null\<close> and \<^verbatim>\<open>undefined\<close>, never throws.\<close>

definition js_oget :: "jsval \<Rightarrow> string \<Rightarrow> jsval" where
  "js_oget v k = (case js_get v k of Inl _ \<Rightarrow> JUndefined | Inr w \<Rightarrow> w)"

text \<open>\<^verbatim>\<open>v[0]\<close>: the first element of an array, the first character of a string, the
  property \<^verbatim>\<open>"0"\<close> of an object.\<close>

fun js_first :: "jsval \<Rightarrow> exn + jsval" where
  "js_first JUndefined = Inl TypeError"
| "js_first JNull = Inl TypeError"
| "js_first (JArr xs) = Inr (case xs of [] \<Rightarrow> JUndefined | x # _ \<Rightarrow> x)"
| "js_first (JStr s) = Inr (case s of [] \<Rightarrow> JUndefined | c # _ \<Rightarrow> JStr [c])"
| "js_first (JObj kvs) = Inr (case map_of kvs ''0'' of Some v \<Rightarrow> v | None \<Rightarrow> JUndefined)"
| "js_first (JBool b) = Inr JUndefined"
| "js_first (JNum n) = Inr JUndefined"

text \<open>\<^verbatim>\<open>v?.[0]\<close>\<close>

definition js_ofirst :: "jsval \<Rightarrow> jsval" where
  "js_ofirst v = (case js_first v of Inl _ \<Rightarrow> JUndefined | Inr w \<Rightarrow> w)"

text \<open>Joining strings with a separator (\<^verbatim>\<open>Array.prototype.join\<close>).\<close>

fun js_join :: "string \<Rightarrow> string list \<Rightarrow> string" where
  "js_join sep [] = []"
| "js_join sep [x] = x"
| "js_join sep (x # y # ys) = x @ sep @ js_join sep (y # ys)"

text \<open>
  \<^verbatim>\<open>String(v)\<close>, which is also what a template literal does to an interpolated value: an
  array is its elements joined by commas, \<^verbatim>\<open>null\<close> and \<^verbatim>\<open>undefined\<close> elements empty; an
  object is \<^verbatim>\<open>[object Object]\<close>.
\<close>

fun js_String :: "platform \<Rightarrow> jsval \<Rightarrow> string" where
  "js_String P JUndefined = ''undefined''"
| "js_String P JNull = ''null''"
| "js_String P (JBool b) = (if b then ''true'' else ''false'')"
| "js_String P (JNum n) = Number_toString P n"
| "js_String P (JStr s) = s"
| "js_String P (JArr xs) =
     js_join '','' (map (\<lambda>x. if nullish x then [] else js_String P x) xs)"
| "js_String P (JObj kvs) = ''[object Object]''"

text \<open>
  \<^verbatim>\<open>v > 0\<close>: the value is converted to a number first; \<^verbatim>\<open>undefined\<close>, a text that is not
  a number and an object give \<^verbatim>\<open>NaN\<close>, which is not greater than 0; \<^verbatim>\<open>null\<close> gives 0.
\<close>

fun js_gt0 :: "platform \<Rightarrow> jsval \<Rightarrow> bool" where
  "js_gt0 P JUndefined = False"
| "js_gt0 P JNull = False"
| "js_gt0 P (JBool b) = b"
| "js_gt0 P (JNum n) = (n > 0)"
| "js_gt0 P (JStr s) = (case String_toNumber P s of Some n \<Rightarrow> n > 0 | None \<Rightarrow> False)"
| "js_gt0 P (JArr xs) =
     (case String_toNumber P (js_String P (JArr xs)) of Some n \<Rightarrow> n > 0 | None \<Rightarrow> False)"
| "js_gt0 P (JObj kvs) = False"

text \<open>\<^verbatim>\<open>err.message\<close> and \<^verbatim>\<open>String(err)\<close> of a thrown error.\<close>

fun exn_message :: "platform \<Rightarrow> exn \<Rightarrow> string" where
  "exn_message P TypeError = TypeError_message P"
| "exn_message P InvalidCharacterError = InvalidCharacterError_message P"
| "exn_message P (SyntaxError m) = m"
| "exn_message P (Error m) = m"

fun exn_name :: "exn \<Rightarrow> string" where
  "exn_name TypeError = ''TypeError''"
| "exn_name InvalidCharacterError = ''InvalidCharacterError''"
| "exn_name (SyntaxError m) = ''SyntaxError''"
| "exn_name (Error m) = ''Error''"

definition exn_String :: "platform \<Rightarrow> exn \<Rightarrow> string" where
  "exn_String P e =
     (if exn_message P e = [] then exn_name e else exn_name e @ '': '' @ exn_message P e)"

text \<open>\<^verbatim>\<open>String(e?.message || e)\<close>\<close>

definition message_or_String :: "platform \<Rightarrow> exn \<Rightarrow> string" where
  "message_or_String P e = (if exn_message P e \<noteq> [] then exn_message P e else exn_String P e)"

text \<open>\<^verbatim>\<open>process.env\<close>, and \<^verbatim>\<open>process.env.NAME || fallback\<close>: an unset and an empty variable
  are both falsy.\<close>

type_synonym env = "string \<rightharpoonup> string"

definition env_set :: "env \<Rightarrow> string \<Rightarrow> bool" where
  "env_set env name = (case env name of None \<Rightarrow> False | Some v \<Rightarrow> v \<noteq> [])"

definition env_or :: "env \<Rightarrow> string \<Rightarrow> string \<Rightarrow> string" where
  "env_or env name fallback = (if env_set env name then the (env name) else fallback)"

subsection \<open>fetch\<close>

text \<open>
  What \<^verbatim>\<open>fetch(url, { method, headers, body })\<close> is given, and the part of the response
  the code reads: \<^verbatim>\<open>status\<close> and the body text; \<^verbatim>\<open>ok\<close> is a status from 200 to 299.
  The environment decides what a request is answered: \<open>fetch n r\<close> is the outcome of the
  request \<open>r\<close> issued as request number \<open>n\<close> of an invocation, \<open>Inl\<close> when \<^verbatim>\<open>fetch\<close> or the
  reading of the body throws.
\<close>

record fetch_init =
  url :: string
  fetch_method :: string
  fetch_headers :: "(string \<times> string) list"
  fetch_body :: string

record response =
  http_status :: int
  http_text :: string

definition response_ok :: "response \<Rightarrow> bool" where
  "response_ok r = (200 \<le> http_status r \<and> http_status r \<le> 299)"

type_synonym fetch = "nat \<Rightarrow> fetch_init \<Rightarrow> exn + response"

section \<open>The Storefront proxy (netlify/functions/shopify.js)\<close>

text \<open>
  The Netlify event (its method and its body, \<open>None\<close> for \<^verbatim>\<open>null\<close>) and the reply object
  \<^verbatim>\<open>{ statusCode, headers, body }\<close>. The module has no variable outside \<^verbatim>\<open>handler\<close>: an
  invocation takes the event, the environment and the answers of the API, and returns the
  reply together with the requests it issued.
\<close>

record event =
  httpMethod :: string
  body :: "string option"

record reply =
  statusCode :: int
  headers :: "(string \<times> string) list"
  reply_body :: string

definition reply :: "platform \<Rightarrow> int \<Rightarrow> jsval \<Rightarrow> reply" where
  "reply P code obj =
     \<lparr>statusCode = code,
      headers = [(''Content-Type'', ''application/json''),
                 (''Access-Control-Allow-Origin'', ''*''),
                 (''Access-Control-Allow-Headers'', ''Content-Type''),
                 (''Access-Control-Allow-Methods'', ''POST, OPTIONS'')],
      reply_body = JSON_stringify P obj\<rparr>"

text \<open>\<^verbatim>\<open>event.body || "{}"\<close>\<close>

definition event_body_text :: "event \<Rightarrow> string" where
  "event_body_text event =
     (case body event of None \<Rightarrow> ''{}'' | Some b \<Rightarrow> if b = [] then ''{}'' else b)"

text \<open>The request the proxy sends for a query and its variables.\<close>

definition shopify_request :: "platform \<Rightarrow> env \<Rightarrow> jsval \<Rightarrow> jsval \<Rightarrow> fetch_init" where
  "shopify_request P env query variables =
     (let SHOP_DOMAIN = env_or env ''SHOP_DOMAIN'' ''acefixings.com'';
          API_VERSION = env_or env ''SHOPIFY_API_VERSION'' ''2025-07'';
          TOKEN = the (env ''SHOPIFY_STOREFRONT_TOKEN'')
      in \<lparr>url = ''https://'' @ SHOP_DOMAIN @ ''/api/'' @ API_VERSION @ ''/graphql.json'',
          fetch_method = ''POST'',
          fetch_headers = [(''Content-Type'', ''application/json''),
                           (''X-Shopify-Storefront-Access-Token'', TOKEN)],
          fetch_body = JSON_stringify P
             (JObj [(''query'', query), (''variables'', js_or variables (JObj []))])\<rparr>)"

text \<open>
  \<^verbatim>\<open>handler(event)\<close>. The outer \<^verbatim>\<open>catch\<close> turns whatever is thrown (the destructuring of
  a \<^verbatim>\<open>null\<close> body, a failing \<^verbatim>\<open>fetch\<close>) into a 500 reply.
\<close>

definition shopify_handler ::
  "platform \<Rightarrow> env \<Rightarrow> fetch \<Rightarrow> event \<Rightarrow> reply \<times> fetch_init list" where
  "shopify_handler P env fetch event =
     (let caught = (\<lambda>err. reply P 500
            (JObj [(''ok'', JBool False), (''error'', JStr (message_or_String P err))]))
      in
      if httpMethod event = ''OPTIONS'' then (reply P 200 (JObj [(''ok'', JBool True)]), [])
      else if httpMethod event \<noteq> ''POST'' then
        (reply P 405 (JObj [(''ok'', JBool False), (''error'', JStr ''Use POST'')]), [])
      else
        (case JSON_parse P (event_body_text event) of
           Inl m \<Rightarrow>
             (reply P 400 (JObj [(''ok'', JBool False), (''error'', JStr ''Invalid JSON body''),
                                 (''details'', JStr (exn_String P (SyntaxError m)))]), [])
         | Inr parsed_body \<Rightarrow>
             (case js_get parsed_body ''query'' of
                Inl err \<Rightarrow> (caught err, [])
              | Inr query \<Rightarrow>
                  (let variables = js_oget parsed_body ''variables'' in
                   if \<not> truthy query then
                     (reply P 400 (JObj [(''ok'', JBool False),
                                         (''error'', JStr ''Missing query'')]), [])
                   else if \<not> env_set env ''SHOPIFY_STOREFRONT_TOKEN'' then
                     (reply P 500 (JObj [(''ok'', JBool False),
                        (''error'', JStr ''Missing SHOPIFY_STOREFRONT_TOKEN env var'')]), [])
                   else
                     (let r = shopify_request P env query variables in
                      case fetch 0 r of
                        Inl err \<Rightarrow> (caught err, [r])
                      | Inr res \<Rightarrow>
                          (let text = http_text res;
                               parsed = (case JSON_parse P text of
                                           Inr v \<Rightarrow> v
                                         | Inl _ \<Rightarrow> JObj [(''raw'', JStr text)])
                           in if \<not> response_ok res then
                                (reply P (http_status res)
                                   (JObj [(''ok'', JBool False),
                                          (''error'', JStr (''Shopify HTTP '' @
                                             Number_toString P (of_int (http_status res)))),
                                          (''details'', parsed)]), [r])
                              else (reply P 200 parsed, [r])))))))"

section \<open>The VAT verification endpoint (api/submitVatVerification)\<close>

text \<open>
  The request as the handler reads it (\<^verbatim>\<open>req.method\<close>, \<^verbatim>\<open>req.body\<close>: \<^verbatim>\<open>undefined\<close> when no
  body was sent) and what \<^verbatim>\<open>res.status(code).json(obj)\<close> sends. The module has no variable
  outside its two functions.
\<close>

record req =
  req_method :: string
  req_body :: jsval

record res =
  status :: int
  json :: jsval

text \<open>The three GraphQL documents (white space collapsed).\<close>

definition searchQuery :: string where
  "searchQuery = ''query SearchCustomers($query: String!) { customers(first: 1, query: $query) { edges { node { id email } } } }''"

definition updateMetafieldMutation :: string where
  "updateMetafieldMutation = ''mutation UpdateCustomerMetafield($metafields: [MetafieldsSetInput!]!) { metafieldsSet(metafields: $metafields) { userErrors { field message } metafields { id key value } } }''"

definition addTagMutation :: string where
  "addTagMutation = ''mutation AddCustomerTag($id: ID!, $tags: [String!]!) { tagsAdd(id: $id, tags: $tags) { userErrors { field message } node { id } } }''"

text \<open>The request \<^verbatim>\<open>graphqlRequest\<close> builds.\<close>

definition graphql_init ::
  "platform \<Rightarrow> string \<Rightarrow> string \<Rightarrow> string \<Rightarrow> string \<Rightarrow> jsval \<Rightarrow> fetch_init" where
  "graphql_init P domain token apiVersion query variables =
     \<lparr>url = ''https://'' @ domain @ ''/admin/api/'' @ apiVersion @ ''/graphql.json'',
      fetch_method = ''POST'',
      fetch_headers = [(''X-Shopify-Access-Token'', token),
                       (''Content-Type'', ''application/json'')],
      fetch_body = JSON_stringify P
         (JObj [(''query'', JStr query), (''variables'', js_or variables (JObj []))])\<rparr>"

text \<open>
  What \<^verbatim>\<open>graphqlRequest\<close> makes of the outcome of its \<^verbatim>\<open>fetch\<close>: it throws on a status
  outside 200-299, on a body that is not JSON (\<^verbatim>\<open>response.json()\<close>), on \<^verbatim>\<open>null\<close>
  (\<^verbatim>\<open>data.errors\<close>) and on truthy \<^verbatim>\<open>data.errors\<close>; it returns \<^verbatim>\<open>data.data || data\<close>.
\<close>

definition graphql_result :: "platform \<Rightarrow> exn + response \<Rightarrow> exn + jsval" where
  "graphql_result P outcome =
     (case outcome of
        Inl err \<Rightarrow> Inl err
      | Inr response \<Rightarrow>
          (if \<not> response_ok response then
             Inl (Error (''Shopify API error '' @
                    Number_toString P (of_int (http_status response)) @ '': '' @
                    http_text response))
           else (case JSON_parse P (http_text response) of
                   Inl m \<Rightarrow> Inl (SyntaxError m)
                 | Inr data \<Rightarrow>
                     (case js_get data ''errors'' of
                        Inl err \<Rightarrow> Inl err
                      | Inr errors \<Rightarrow>
                          (if truthy errors then
                             Inl (Error (''GraphQL error: '' @ JSON_stringify P errors))
                           else Inr (js_or (js_oget data ''data'') data))))))"

text \<open>
  \<^verbatim>\<open>graphqlRequest(domain, token, apiVersion, query, variables)\<close>; \<open>issued\<close> is the list of the
  requests this invocation has issued so far.
\<close>

definition graphqlRequest ::
  "platform \<Rightarrow> fetch \<Rightarrow> string \<Rightarrow> string \<Rightarrow> string \<Rightarrow> string \<Rightarrow> jsval \<Rightarrow> fetch_init list
     \<Rightarrow> (exn + jsval) \<times> fetch_init list" where
  "graphqlRequest P fetch domain token apiVersion query variables issued =
     (let r = graphql_init P domain token apiVersion query variables
      in (graphql_result P (fetch (length issued) r), issued @ [r]))"

text \<open>The variables of the three requests.\<close>

definition search_variables :: "platform \<Rightarrow> jsval \<Rightarrow> jsval" where
  "search_variables P customerEmail =
     JObj [(''query'', JStr (''email:'' @ js_String P customerEmail))]"

definition metafield :: "jsval \<Rightarrow> string \<Rightarrow> jsval \<Rightarrow> jsval" where
  "metafield customerId key v =
     JObj [(''ownerId'', customerId), (''namespace'', JStr ''custom''), (''key'', JStr key),
           (''type'', JStr ''single_line_text_field''), (''value'', v)]"

definition metafield_variables :: "jsval \<Rightarrow> jsval \<Rightarrow> jsval \<Rightarrow> jsval \<Rightarrow> jsval" where
  "metafield_variables customerId vatNumber businessName country =
     JObj [(''metafields'',
            JArr [metafield customerId ''vat_number'' vatNumber,
                  metafield customerId ''business_name'' businessName,
                  metafield customerId ''business_country'' country])]"

definition tag_variables :: "jsval \<Rightarrow> jsval" where
  "tag_variables customerId =
     JObj [(''id'', customerId), (''tags'', JArr [JStr ''No Vat Customers''])]"

text \<open>\<^verbatim>\<open>searchResponse.customers.edges[0].node.id\<close>, throwing where a link is nullish.\<close>

definition customer_id :: "jsval \<Rightarrow> exn + jsval" where
  "customer_id searchResponse =
     (case js_get searchResponse ''customers'' of Inl e \<Rightarrow> Inl e | Inr customers \<Rightarrow>
      case js_get customers ''edges'' of Inl e \<Rightarrow> Inl e | Inr edges \<Rightarrow>
      case js_first edges of Inl e \<Rightarrow> Inl e | Inr edge \<Rightarrow>
      case js_get edge ''node'' of Inl e \<Rightarrow> Inl e | Inr node \<Rightarrow>
      js_get node ''id'')"

text \<open>
  Step 3 of the handler: add the tag \<^verbatim>\<open>No Vat Customers\<close>. User errors of \<^verbatim>\<open>tagsAdd\<close> are
  logged only ("Don't fail - metafields were saved successfully"): the response is 200
  whenever the request itself returns. \<open>Inr\<close> is the response a \<^verbatim>\<open>return\<close> sends, \<open>Inl\<close>
  what is thrown; the second component is the list of requests issued.
\<close>

definition success_response :: res where
  "success_response =
     \<lparr>status = 200,
      json = JObj [(''success'', JBool True),
        (''message'', JStr ''VAT verification submitted successfully. Your application will be reviewed shortly.'')]\<rparr>"

definition vat_step3 ::
  "platform \<Rightarrow> fetch \<Rightarrow> string \<Rightarrow> string \<Rightarrow> string \<Rightarrow> jsval \<Rightarrow> fetch_init list
     \<Rightarrow> (exn + res) \<times> fetch_init list" where
  "vat_step3 P fetch shopDomain adminToken apiVersion customerId issued2 =
     (case graphqlRequest P fetch shopDomain adminToken apiVersion addTagMutation
             (tag_variables customerId) issued2 of
        (Inl err, issued3) \<Rightarrow> (Inl err, issued3)
      | (Inr tagResponse, issued3) \<Rightarrow> (Inr success_response, issued3))"

text \<open>
  Step 2: write the three metafields; throw on \<^verbatim>\<open>errors\<close> and on user errors of
  \<^verbatim>\<open>metafieldsSet\<close>; then step 3.
\<close>

definition metafield_failure :: "platform \<Rightarrow> jsval \<Rightarrow> exn option" where
  "metafield_failure P metafieldResponse =
     (if truthy (js_oget metafieldResponse ''errors'')
      then Some (Error (''Metafield update failed: '' @
              JSON_stringify P (js_oget metafieldResponse ''errors'')))
      else if js_gt0 P (js_oget (js_oget (js_oget metafieldResponse ''metafieldsSet'')
                          ''userErrors'') ''length'')
      then Some (Error (''Metafield update failed: '' @
              JSON_stringify P (js_oget (js_oget metafieldResponse ''metafieldsSet'')
                 ''userErrors'')))
      else None)"

definition vat_step2 ::
  "platform \<Rightarrow> fetch \<Rightarrow> string \<Rightarrow> string \<Rightarrow> string \<Rightarrow> jsval \<Rightarrow> jsval \<Rightarrow> jsval \<Rightarrow> jsval
     \<Rightarrow> fetch_init list \<Rightarrow> (exn + res) \<times> fetch_init list" where
  "vat_step2 P fetch shopDomain adminToken apiVersion customerId vatNumber businessName
       country issued1 =
     (case graphqlRequest P fetch shopDomain adminToken apiVersion updateMetafieldMutation
             (metafield_variables customerId vatNumber businessName country) issued1 of
        (Inl err, issued2) \<Rightarrow> (Inl err, issued2)
      | (Inr metafieldResponse, issued2) \<Rightarrow>
          (case metafield_failure P metafieldResponse of
             Some err \<Rightarrow> (Inl err, issued2)
           | None \<Rightarrow>
               vat_step3 P fetch shopDomain adminToken apiVersion customerId issued2))"

text \<open>
  Step 1: find the customer by email; 404 when \<^verbatim>\<open>searchResponse?.customers?.edges?.length\<close>
  is falsy; then step 2 for the first customer's id.
\<close>

definition not_found_response :: "platform \<Rightarrow> jsval \<Rightarrow> res" where
  "not_found_response P customerEmail =
     \<lparr>status = 404,
      json = JObj [(''error'', JStr (''Customer with email '' @
                      js_String P customerEmail @ '' not found''))]\<rparr>"

definition no_customer :: "jsval \<Rightarrow> bool" where
  "no_customer searchResponse =
     (\<not> truthy (js_oget (js_oget (js_oget searchResponse ''customers'') ''edges'')
                   ''length''))"

definition vat_step1 ::
  "platform \<Rightarrow> fetch \<Rightarrow> string \<Rightarrow> string \<Rightarrow> string \<Rightarrow> jsval \<Rightarrow> jsval \<Rightarrow> jsval \<Rightarrow> jsval
     \<Rightarrow> (exn + res) \<times> fetch_init list" where
  "vat_step1 P fetch shopDomain adminToken apiVersion customerEmail businessName country
       vatNumber =
     (case graphqlRequest P fetch shopDomain adminToken apiVersion searchQuery
             (search_variables P customerEmail) [] of
        (Inl err, issued1) \<Rightarrow> (Inl err, issued1)
      | (Inr searchResponse, issued1) \<Rightarrow>
          (if no_customer searchResponse
           then (Inr (not_found_response P customerEmail), issued1)
           else (case customer_id searchResponse of
                   Inl err \<Rightarrow> (Inl err, issued1)
                 | Inr customerId \<Rightarrow>
                     vat_step2 P fetch shopDomain adminToken apiVersion customerId vatNumber
                       businessName country issued1)))"

text \<open>
  The configuration read from the environment:
  \<^verbatim>\<open>SHOPIFY_DOMAIN || SHOP_DOMAIN || "acefixings.myshopify.com"\<close> and
  \<^verbatim>\<open>SHOPIFY_API_VERSION || "2024-01"\<close>.
\<close>

definition vat_shopDomain :: "env \<Rightarrow> string" where
  "vat_shopDomain env =
     (if env_set env ''SHOPIFY_DOMAIN'' then the (env ''SHOPIFY_DOMAIN'')
      else env_or env ''SHOP_DOMAIN'' ''acefixings.myshopify.com'')"

definition vat_apiVersion :: "env \<Rightarrow> string" where
  "vat_apiVersion env = env_or env ''SHOPIFY_API_VERSION'' ''2024-01''"

text \<open>A request of the handler under the configuration of the environment.\<close>

definition vat_request :: "platform \<Rightarrow> env \<Rightarrow> string \<Rightarrow> jsval \<Rightarrow> fetch_init" where
  "vat_request P env query variables =
     graphql_init P (vat_shopDomain env) (the (env ''SHOPIFY_ADMIN_API_TOKEN''))
       (vat_apiVersion env) query variables"

text \<open>The three requests of the handler for a request \<open>rq\<close> and a customer id.\<close>

definition search_request :: "platform \<Rightarrow> env \<Rightarrow> req \<Rightarrow> fetch_init" where
  "search_request P env rq =
     vat_request P env searchQuery
       (search_variables P (js_oget (req_body rq) ''customerEmail''))"

definition metafields_request :: "platform \<Rightarrow> env \<Rightarrow> req \<Rightarrow> jsval \<Rightarrow> fetch_init" where
  "metafields_request P env rq customerId =
     vat_request P env updateMetafieldMutation
       (metafield_variables customerId (js_oget (req_body rq) ''vatNumber'')
          (js_oget (req_body rq) ''businessName'') (js_oget (req_body rq) ''country''))"

definition tag_request :: "platform \<Rightarrow> env \<Rightarrow> jsval \<Rightarrow> fetch_init" where
  "tag_request P env customerId =
     vat_request P env addTagMutation (tag_variables customerId)"

text \<open>
  The body of the \<^verbatim>\<open>try\<close> block of \<^verbatim>\<open>handler\<close> up to step 1: the destructuring of
  \<^verbatim>\<open>req.body\<close> (a \<^verbatim>\<open>TypeError\<close> when there is no body), the validation of the four fields
  (400), the configuration and the check of the admin token (500).
\<close>

definition vat_try :: "platform \<Rightarrow> env \<Rightarrow> fetch \<Rightarrow> req \<Rightarrow> (exn + res) \<times> fetch_init list" where
  "vat_try P env fetch rq =
     (case js_get (req_body rq) ''customerEmail'' of
        Inl err \<Rightarrow> (Inl err, [])
      | Inr customerEmail \<Rightarrow>
          (let businessName = js_oget (req_body rq) ''businessName'';
               country = js_oget (req_body rq) ''country'';
               vatNumber = js_oget (req_body rq) ''vatNumber''
           in
           if \<not> truthy customerEmail \<or> \<not> truthy businessName \<or> \<not> truthy country
                \<or> \<not> truthy vatNumber
           then (Inr \<lparr>status = 400,
                      json = JObj [(''error'', JStr ''Missing required fields'')]\<rparr>, [])
           else if \<not> env_set env ''SHOPIFY_ADMIN_API_TOKEN''
           then (Inr \<lparr>status = 500,
                      json = JObj [(''error'', JStr ''Missing admin API token'')]\<rparr>, [])
           else vat_step1 P fetch (vat_shopDomain env) (the (env ''SHOPIFY_ADMIN_API_TOKEN''))
                  (vat_apiVersion env) customerEmail businessName country vatNumber))"

text \<open>
  \<^verbatim>\<open>handler(req, res)\<close>: 405 for any method but POST; otherwise the \<^verbatim>\<open>try\<close> block, with
  \<^verbatim>\<open>catch\<close> answering 500 and \<^verbatim>\<open>err.message || "Internal server error"\<close>.
\<close>

definition vat_handler :: "platform \<Rightarrow> env \<Rightarrow> fetch \<Rightarrow> req \<Rightarrow> res \<times> fetch_init list" where
  "vat_handler P env fetch rq =
     (if req_method rq \<noteq> ''POST''
      then (\<lparr>status = 405, json = JObj [(''error'', JStr ''Method not allowed'')]\<rparr>, [])
      else (case vat_try P env fetch rq of
              (Inr r, issued) \<Rightarrow> (r, issued)
            | (Inl err, issued) \<Rightarrow>
                (\<lparr>status = 500,
                  json = JObj [(''error'', JStr (if exn_message P err \<noteq> []
                                                then exn_message P err
                                                else ''Internal server error''))]\<rparr>, issued)))"


section \<open>The app (App.jsx)\<close>

subsection \<open>Bulk pricing\<close>



text \<open>
  \<^verbatim>\<open>getBulkDiscount\<close> is declared twice in the body of \<^verbatim>\<open>App\<close>. The first declaration
  returns a label (\<^verbatim>\<open>"20%"\<close>, ..., \<^verbatim>\<open>null\<close>); the second, numeric one is hoisted last and
  is the one every call reaches.
\<close>

definition getBulkDiscount_label :: "int \<Rightarrow> string option" where
  "getBulkDiscount_label qty =
     (if qty \<ge> 100 then Some ''20%''
      else if qty \<ge> 50 then Some ''15%''
      else if qty \<ge> 25 then Some ''10%''
      else if qty \<ge> 10 then Some ''5%''
      else None)"


subsection \<open>clamp\<close>


subsection \<open>decodeJwt\<close>

text \<open>\<^verbatim>\<open>s.split(c)\<close> for a one-character separator: never empty, \<^verbatim>\<open>"".split(".")\<close> is \<^verbatim>\<open>[""]\<close>.\<close>

fun js_split :: "char \<Rightarrow> string \<Rightarrow> string list" where
  "js_split c [] = [[]]"
| "js_split c (x # xs) =
     (if x = c then [] # js_split c xs
      else (case js_split c xs of [] \<Rightarrow> [[x]] | p # ps \<Rightarrow> (x # p) # ps))"

text \<open>\<^verbatim>\<open>safeJsonParse(s)\<close>: \<^verbatim>\<open>JSON.parse\<close>, with \<^verbatim>\<open>null\<close> where it throws.\<close>

definition safeJsonParse :: "platform \<Rightarrow> string \<Rightarrow> jsval" where
  "safeJsonParse P s = (case JSON_parse P s of Inr v \<Rightarrow> v | Inl _ \<Rightarrow> JNull)"

text \<open>Lower-case hexadecimal digit of a number below 16 (\<^verbatim>\<open>toString(16)\<close>).\<close>

definition hexdigit :: "nat \<Rightarrow> char" where
  "hexdigit d = (''0123456789abcdef'' ! (d mod 16))"

text \<open>\<^verbatim>\<open>"%" + ("00" + c.charCodeAt(0).toString(16)).slice(-2)\<close> for a character below 256.\<close>

definition percent_hex :: "char \<Rightarrow> string" where
  "percent_hex c = [CHR ''%'', hexdigit (of_char c div 16), hexdigit (of_char c mod 16)]"

text \<open>
  \<^verbatim>\<open>base64UrlDecode(str)\<close>: pad to a multiple of four, map the URL alphabet back, \<^verbatim>\<open>atob\<close>
  (which throws on a character outside the alphabet, and nothing catches it here), then
  \<^verbatim>\<open>decodeURIComponent\<close> of the percent-encoded bytes, the raw bytes where that throws.
\<close>

definition base64UrlDecode :: "platform \<Rightarrow> string \<Rightarrow> exn + string" where
  "base64UrlDecode P str =
     (let pad = replicate ((4 - (length str mod 4)) mod 4) CHR ''='';
          b64 = map (\<lambda>c. if c = CHR ''_'' then CHR ''/'' else c)
                  (map (\<lambda>c. if c = CHR ''-'' then CHR ''+'' else c) (str @ pad))
      in case atob P b64 of
           None \<Rightarrow> Inl InvalidCharacterError
         | Some decoded \<Rightarrow>
             (case decodeURIComponent P (concat (map percent_hex decoded)) of
                Some s \<Rightarrow> Inr s
              | None \<Rightarrow> Inr decoded))"

text \<open>
  \<^verbatim>\<open>decodeJwt(jwt)\<close>: \<^verbatim>\<open>null\<close> unless \<^verbatim>\<open>jwt\<close> is a non-empty string with at least two
  dot-separated parts; otherwise the parsed payload (the second part).
\<close>

definition decodeJwt :: "platform \<Rightarrow> jsval \<Rightarrow> exn + jsval" where
  "decodeJwt P jwt =
     (case jwt of
        JStr s \<Rightarrow>
          (if s = [] then Inr JNull
           else let parts = js_split CHR ''.'' s in
             if length parts < 2 then Inr JNull
             else (case base64UrlDecode P (parts ! 1) of
                     Inl e \<Rightarrow> Inl e
                   | Inr payload \<Rightarrow> Inr (safeJsonParse P payload)))
      | _ \<Rightarrow> Inr JNull)"

subsection \<open>Storage keys\<close>

text \<open>The object \<^verbatim>\<open>K\<close> of keys of the Preferences store.\<close>

definition K_VAT_MODE :: string where "K_VAT_MODE = ''acefixings_vat_mode''"
definition K_CART_ID :: string where "K_CART_ID = ''acefixings_cart_id''"
definition K_AUTH :: string where "K_AUTH = ''acefixings_auth''"
definition K_PKCE :: string where "K_PKCE = ''acefixings_pkce''"
definition K_PROFILE :: string where "K_PROFILE = ''acefixings_customer_profile''"
definition K_ORDERS_CACHE :: string where "K_ORDERS_CACHE = ''acefixings_orders_cache''"

subsection \<open>Orders and cart lines\<close>

text \<open>
  A line item as the Orders query of the Customer Account API returns it: \<^verbatim>\<open>variantId\<close> is
  a nullable ID, \<^verbatim>\<open>quantity\<close> an Int (\<open>li_quantity\<close>; \<open>None\<close> where the field is absent). An
  order carries \<^verbatim>\<open>lineItems.nodes\<close> (\<open>None\<close> where \<^verbatim>\<open>order?.lineItems?.nodes\<close> is falsy).
\<close>

record line_item =
  variantId :: "string option"
  li_quantity :: "int option"

record order =
  lineItems :: "line_item list option"

text \<open>A line of the \<^verbatim>\<open>cartLinesAdd\<close> mutation: \<^verbatim>\<open>{ merchandiseId, quantity }\<close>.\<close>

record cart_line =
  merchandiseId :: "string option"
  quantity :: int

subsection \<open>The Storefront API and the state of the component\<close>

text \<open>
  The three Storefront documents the cart code sends, with their variables:
  \<^verbatim>\<open>CartCreate\<close> (\<^verbatim>\<open>{ input: {} }\<close>), \<^verbatim>\<open>CartQuery\<close> (\<^verbatim>\<open>{ id }\<close>) and \<^verbatim>\<open>CartLinesAdd\<close>
  (\<^verbatim>\<open>{ cartId, lines }\<close>).
\<close>

datatype sf_request =
    CartCreate
  | CartQuery jsval
  | CartLinesAdd jsval "cart_line list"

text \<open>
  \<^verbatim>\<open>shopifyStorefront(query, variables)\<close> either returns \<^verbatim>\<open>json.data\<close> or throws. What the
  n-th call answers is the environment's choice: \<open>sf n r\<close> is the outcome of request \<open>r\<close>
  issued as call number \<open>n\<close>.
\<close>

type_synonym storefront = "nat \<Rightarrow> sf_request \<Rightarrow> exn + jsval"

text \<open>
  The state of \<^verbatim>\<open>App\<close> that the modelled functions read and write, the Preferences store
  (\<open>prefs\<close>), and what the app has sent so far, in order: the Storefront requests
  (\<open>sf_log\<close>), the URLs given to \<^verbatim>\<open>Browser.open\<close> (\<open>opened\<close>) and the URL and body of each
  \<^verbatim>\<open>httpPostForm\<close> (\<open>posted\<close>).
\<close>

record app =
  error :: string
  toast :: string
  vatMode :: string
  auth :: jsval
  userEmail :: string
  userName :: string
  isNonVatCustomer :: bool
  view :: string
  cartId :: jsval
  cart :: jsval
  loadingCart :: bool
  orders :: "order list"
  activeOrder :: "order option"
  oidc :: jsval
  custApi :: jsval
  opened :: "string list"
  posted :: "(jsval \<times> string) list"
  prefs :: "string \<rightharpoonup> string"
  sf_log :: "sf_request list"

definition shopifyStorefront :: "storefront \<Rightarrow> sf_request \<Rightarrow> app \<Rightarrow> (exn + jsval) \<times> app" where
  "shopifyStorefront sf r s = (sf (length (sf_log s)) r, s\<lparr>sf_log := sf_log s @ [r]\<rparr>)"

subsection \<open>Cart\<close>

text \<open>
  \<^verbatim>\<open>createCart()\<close>: throws the first user error's message if there is one, throws
  \<^verbatim>\<open>"Failed to create cart"\<close> if no id comes back, returns the id otherwise.
\<close>

definition createCart :: "platform \<Rightarrow> storefront \<Rightarrow> app \<Rightarrow> (exn + jsval) \<times> app" where
  "createCart P sf s =
     (case shopifyStorefront sf CartCreate s of
        (Inl e, s1) \<Rightarrow> (Inl e, s1)
      | (Inr data, s1) \<Rightarrow>
          (let err = js_oget (js_ofirst (js_oget (js_oget data ''cartCreate'') ''userErrors''))
                       ''message''
           in if truthy err then (Inl (Error (js_String P err)), s1)
              else let cid = js_oget (js_oget (js_oget data ''cartCreate'') ''cart'') ''id''
                   in if \<not> truthy cid then (Inl (Error ''Failed to create cart''), s1)
                      else (Inr cid, s1)))"

text \<open>
  Building the cart shown from \<^verbatim>\<open>data.cart\<close> throws a \<^verbatim>\<open>TypeError\<close> when
  \<^verbatim>\<open>data.cart.lines?.edges\<close> is neither nullish nor an array (it has no \<^verbatim>\<open>map\<close>), or when
  an edge or its \<^verbatim>\<open>node\<close> is nullish (\<^verbatim>\<open>e.node.id\<close>).
\<close>

definition cart_edges_throw :: "jsval \<Rightarrow> bool" where
  "cart_edges_throw c =
     (case js_oget (js_oget c ''lines'') ''edges'' of
        JUndefined \<Rightarrow> False
      | JNull \<Rightarrow> False
      | JArr es \<Rightarrow> list_ex (\<lambda>e. nullish e \<or> nullish (js_oget e ''node'')) es
      | _ \<Rightarrow> True)"

text \<open>
  \<^verbatim>\<open>fetchCart(id)\<close>: sets the loading flag and clears the error, queries the cart, throws
  \<^verbatim>\<open>"Cart not found (expired)."\<close> when no cart id comes back, stores the cart, and resets
  the loading flag in \<^verbatim>\<open>finally\<close>. The stored value is \<^verbatim>\<open>data.cart\<close> itself: the view
  object built from it is not modelled, what can throw while it is built is.
\<close>

definition fetchCart :: "storefront \<Rightarrow> jsval \<Rightarrow> app \<Rightarrow> (exn + unit) \<times> app" where
  "fetchCart sf cid s =
     (let s0 = s\<lparr>loadingCart := True, error := ''''\<rparr> in
      case shopifyStorefront sf (CartQuery cid) s0 of
        (Inl e, s1) \<Rightarrow> (Inl e, s1\<lparr>loadingCart := False\<rparr>)
      | (Inr data, s1) \<Rightarrow>
          (if \<not> truthy (js_oget (js_oget data ''cart'') ''id'')
           then (Inl (Error ''Cart not found (expired).''), s1\<lparr>loadingCart := False\<rparr>)
           else if cart_edges_throw (js_oget data ''cart'')
           then (Inl TypeError, s1\<lparr>loadingCart := False\<rparr>)
           else (Inr (), s1\<lparr>cart := js_oget data ''cart'', loadingCart := False\<rparr>)))"

text \<open>
  \<^verbatim>\<open>ensureCartId()\<close>: with a saved cart id, fetch that cart and return the id; the
  \<^verbatim>\<open>catch {}\<close> swallows a failure of that fetch and control falls through to creating a
  new cart, storing its id and fetching it.
\<close>

definition ensureCartId_create :: "platform \<Rightarrow> storefront \<Rightarrow> app \<Rightarrow> (exn + jsval) \<times> app" where
  "ensureCartId_create P sf s =
     (case createCart P sf s of
        (Inl e, s1) \<Rightarrow> (Inl e, s1)
      | (Inr newId, s1) \<Rightarrow>
          (case fetchCart sf newId (s1\<lparr>cartId := newId\<rparr>) of
             (Inl e, s2) \<Rightarrow> (Inl e, s2)
           | (Inr _, s2) \<Rightarrow> (Inr newId, s2)))"

definition ensureCartId :: "platform \<Rightarrow> storefront \<Rightarrow> app \<Rightarrow> (exn + jsval) \<times> app" where
  "ensureCartId P sf s =
     (if truthy (cartId s) then
        (case fetchCart sf (cartId s) s of
           (Inr _, s1) \<Rightarrow> (Inr (cartId s), s1)
         | (Inl _, s1) \<Rightarrow> ensureCartId_create P sf s1)
      else ensureCartId_create P sf s)"


subsection \<open>Reorder\<close>






subsection \<open>Logout\<close>

text \<open>
  \<^verbatim>\<open>logout()\<close> resets the session state and removes three keys from the Preferences
  store: \<^verbatim>\<open>K.AUTH\<close>, \<^verbatim>\<open>K.PROFILE\<close> and \<^verbatim>\<open>K.ORDERS_CACHE\<close>.
\<close>

definition logout :: "app \<Rightarrow> app" where
  "logout s =
     (let s1 = s\<lparr>auth := JNull, userEmail := '''', userName := '''',
                 isNonVatCustomer := False, vatMode := ''inc'', orders := [],
                 activeOrder := None\<rparr>;
          s2 = s1\<lparr>prefs := (prefs s1)(K_AUTH := None)\<rparr>;
          s3 = s2\<lparr>prefs := (prefs s2)(K_PROFILE := None)\<rparr>;
          s4 = s3\<lparr>prefs := (prefs s3)(K_ORDERS_CACHE := None)\<rparr>
      in s4\<lparr>toast := ''Logged out''\<rparr>)"

text \<open>
  The two persistence effects of \<^verbatim>\<open>App\<close>, run after a render in which their dependency
  changed: \<^verbatim>\<open>Preferences.set({ key: K.VAT_MODE, value: vatMode })\<close> on a change of
  \<^verbatim>\<open>vatMode\<close>, and \<^verbatim>\<open>if (cartId) Preferences.set({ key: K.CART_ID, value: cartId })\<close> on a
  change of \<^verbatim>\<open>cartId\<close>. \<open>before\<close> is the state of the previous render.
\<close>

definition persist_effects :: "platform \<Rightarrow> app \<Rightarrow> app \<Rightarrow> app" where
  "persist_effects P before s =
     (let p1 = (if vatMode s \<noteq> vatMode before then (prefs s)(K_VAT_MODE \<mapsto> vatMode s)
                else prefs s);
          p2 = (if cartId s \<noteq> cartId before \<and> truthy (cartId s)
                then p1(K_CART_ID \<mapsto> js_String P (cartId s)) else p1)
      in s\<lparr>prefs := p2\<rparr>)"

section \<open>The OAuth login with PKCE (App.jsx)\<close>

subsection \<open>Random strings\<close>

text \<open>\<^verbatim>\<open>(b % 36).toString(36)\<close>: a digit or a lower-case letter.\<close>

definition base36_digit :: "nat \<Rightarrow> char" where
  "base36_digit d = (''0123456789abcdefghijklmnopqrstuvwxyz'' ! (d mod 36))"

text \<open>
  \<^verbatim>\<open>randomString(len)\<close> fills \<open>len\<close> bytes with \<^verbatim>\<open>crypto.getRandomValues\<close> and maps each to
  its base-36 digit. \<open>rand\<close> is the sequence of bytes the generator yields and \<open>k\<close> the number
  of bytes drawn before the call.
\<close>

definition randomString :: "(nat \<Rightarrow> nat) \<Rightarrow> nat \<Rightarrow> nat \<Rightarrow> string" where
  "randomString rand k len = map (\<lambda>i. base36_digit ((rand (k + i) mod 256) mod 36)) [0..<len]"

subsection \<open>Base64\<close>

text \<open>
  \<^verbatim>\<open>btoa\<close> of a string of bytes: base64 with the standard alphabet and \<^verbatim>\<open>=\<close> padding.
\<close>

definition base64_alphabet :: string where
  "base64_alphabet = ''ABCDEFGHIJKLMNOPQRSTUVWXYZabcdefghijklmnopqrstuvwxyz0123456789+/''"

fun btoa :: "string \<Rightarrow> string" where
  "btoa [] = []"
| "btoa [a] =
     [base64_alphabet ! (of_char a div 4),
      base64_alphabet ! ((of_char a mod 4) * 16),
      CHR ''='', CHR ''='']"
| "btoa [a, b] =
     [base64_alphabet ! (of_char a div 4),
      base64_alphabet ! ((of_char a mod 4) * 16 + of_char b div 16),
      base64_alphabet ! ((of_char b mod 16) * 4),
      CHR ''='']"
| "btoa (a # b # c # rest) =
     [base64_alphabet ! (of_char a div 4),
      base64_alphabet ! ((of_char a mod 4) * 16 + of_char b div 16),
      base64_alphabet ! ((of_char b mod 16) * 4 + of_char c div 64),
      base64_alphabet ! (of_char c mod 64)] @ btoa rest"

text \<open>
  The unpadded base64url encoding the claim speaks of (RFC 4648, section 5, without the
  padding): the alphabet ends in \<^verbatim>\<open>-\<close> and \<^verbatim>\<open>_\<close>, and a last group of one or two bytes gives
  two or three characters.
\<close>

definition base64url_alphabet :: string where
  "base64url_alphabet = ''ABCDEFGHIJKLMNOPQRSTUVWXYZabcdefghijklmnopqrstuvwxyz0123456789-_''"

fun base64url_unpadded :: "string \<Rightarrow> string" where
  "base64url_unpadded [] = []"
| "base64url_unpadded [a] =
     [base64url_alphabet ! (of_char a div 4),
      base64url_alphabet ! ((of_char a mod 4) * 16)]"
| "base64url_unpadded [a, b] =
     [base64url_alphabet ! (of_char a div 4),
      base64url_alphabet ! ((of_char a mod 4) * 16 + of_char b div 16),
      base64url_alphabet ! ((of_char b mod 16) * 4)]"
| "base64url_unpadded (a # b # c # rest) =
     [base64url_alphabet ! (of_char a div 4),
      base64url_alphabet ! ((of_char a mod 4) * 16 + of_char b div 16),
      base64url_alphabet ! ((of_char b mod 16) * 4 + of_char c div 64),
      base64url_alphabet ! (of_char c mod 64)] @ base64url_unpadded rest"

text \<open>\<^verbatim>\<open>s.replace(/=+$/g, "")\<close>: the string without its trailing \<^verbatim>\<open>=\<close> characters.\<close>

definition strip_trailing_eq :: "string \<Rightarrow> string" where
  "strip_trailing_eq s = rev (dropWhile (\<lambda>c. c = CHR ''='') (rev s))"

text \<open>
  \<^verbatim>\<open>sha256Base64Url(input)\<close>: the UTF-8 bytes of the input, their SHA-256 digest, the
  digest as a binary string, \<^verbatim>\<open>btoa\<close>, then \<^verbatim>\<open>+\<close> to \<^verbatim>\<open>-\<close>, \<^verbatim>\<open>/\<close> to \<^verbatim>\<open>_\<close> and the padding
  removed.
\<close>

definition sha256Base64Url :: "platform \<Rightarrow> string \<Rightarrow> string" where
  "sha256Base64Url P input =
     (let data = TextEncoder_encode P input;
          hash = SHA256 P data;
          b64 = btoa hash
      in strip_trailing_eq
           (map (\<lambda>c. if c = CHR ''/'' then CHR ''_'' else c)
              (map (\<lambda>c. if c = CHR ''+'' then CHR ''-'' else c) b64)))"

text \<open>The two replacements together, on one character.\<close>

definition url_char :: "char \<Rightarrow> char" where
  "url_char c = (if c = CHR ''+'' then CHR ''-'' else if c = CHR ''/'' then CHR ''_'' else c)"

subsection \<open>Configuration and device\<close>

definition SHOP_DOMAIN :: string where "SHOP_DOMAIN = ''acefixings.com''"

definition CUSTOMER_ACCOUNTS_CLIENT_ID :: string where
  "CUSTOMER_ACCOUNTS_CLIENT_ID = ''edc5278a-8942-4645-a802-bdfa625f8dbd''"

definition REDIRECT_URI :: string where "REDIRECT_URI = ''shop.90779713878.app://callback''"

definition OIDC_CONFIG_URL :: string where
  "OIDC_CONFIG_URL = ''https://'' @ SHOP_DOMAIN @ ''/.well-known/openid-configuration''"

definition CUSTOMER_ACCOUNT_API_DISCOVERY_URL :: string where
  "CUSTOMER_ACCOUNT_API_DISCOVERY_URL =
     ''https://'' @ SHOP_DOMAIN @ ''/.well-known/customer-account-api''"

text \<open>
  What the device and the network contribute to a login: whether the app runs natively,
  the outcome of \<^verbatim>\<open>httpGetText(url)\<close>, the bytes \<^verbatim>\<open>crypto.getRandomValues\<close> yields, the clock,
  whether \<^verbatim>\<open>Browser.open\<close> throws, and the outcome of the POST of \<^verbatim>\<open>httpPostForm\<close> (the
  parsed answer of the token endpoint, or what it throws) for a URL and a body.
\<close>

record device =
  isNative :: bool
  httpGetText :: "string \<Rightarrow> exn + string"
  getRandomValues :: "nat \<Rightarrow> nat"
  Date_now :: rat
  Browser_open :: "string \<Rightarrow> exn option"
  token_answer :: "jsval \<Rightarrow> string \<Rightarrow> exn + jsval"

text \<open>\<^verbatim>\<open>fetchJson(url)\<close>: the parsed text, an error when it is not JSON or parses to a falsy
  value.\<close>

definition fetchJson :: "platform \<Rightarrow> device \<Rightarrow> string \<Rightarrow> exn + jsval" where
  "fetchJson P dev u =
     (case httpGetText dev u of
        Inl e \<Rightarrow> Inl e
      | Inr text \<Rightarrow>
          (let json = safeJsonParse P text
           in if \<not> truthy json then Inl (Error ''Invalid JSON from discovery endpoint'')
              else Inr json))"

text \<open>\<^verbatim>\<open>toQuery(obj)\<close>: the entries that are neither undefined nor null, each value as a
  string, serialised by \<^verbatim>\<open>URLSearchParams\<close>.\<close>

definition toQuery :: "platform \<Rightarrow> (string \<times> jsval) list \<Rightarrow> string" where
  "toQuery P obj =
     URLSearchParams_toString P
       (map (\<lambda>kv. (fst kv, js_String P (snd kv))) (filter (\<lambda>kv. \<not> nullish (snd kv)) obj))"

text \<open>
  \<^verbatim>\<open>httpPostForm(url, formObj)\<close>: the body is \<^verbatim>\<open>new URLSearchParams(formObj).toString()\<close> on
  both the native and the web path; the POST and the reading of its answer are the
  device's.
\<close>

definition httpPostForm ::
  "platform \<Rightarrow> device \<Rightarrow> jsval \<Rightarrow> (string \<times> jsval) list \<Rightarrow> app \<Rightarrow> (exn + jsval) \<times> app" where
  "httpPostForm P dev u formObj s =
     (let form_body = URLSearchParams_toString P
                        (map (\<lambda>kv. (fst kv, js_String P (snd kv))) formObj)
      in (token_answer dev u form_body, s\<lparr>posted := posted s @ [(u, form_body)]\<rparr>))"

subsection \<open>startLogin and handleOAuthCallback\<close>

text \<open>\<^verbatim>\<open>oidc || (await fetchJson(OIDC_CONFIG_URL))\<close>, and the same for the customer API.\<close>

definition oidc_or_fetch :: "platform \<Rightarrow> device \<Rightarrow> app \<Rightarrow> exn + jsval" where
  "oidc_or_fetch P dev s =
     (if truthy (oidc s) then Inr (oidc s) else fetchJson P dev OIDC_CONFIG_URL)"

definition custApi_or_fetch :: "platform \<Rightarrow> device \<Rightarrow> app \<Rightarrow> exn + jsval" where
  "custApi_or_fetch P dev s =
     (if truthy (custApi s) then Inr (custApi s)
      else fetchJson P dev CUSTOMER_ACCOUNT_API_DISCOVERY_URL)"

text \<open>The object stored under \<^verbatim>\<open>K.PKCE\<close>, and the query of the authorization URL.\<close>

definition pkce_object :: "string \<Rightarrow> string \<Rightarrow> string \<Rightarrow> rat \<Rightarrow> jsval" where
  "pkce_object verifier state nonce created_at =
     JObj [(''verifier'', JStr verifier), (''state'', JStr state), (''nonce'', JStr nonce),
           (''redirect'', JStr REDIRECT_URI), (''created_at'', JNum created_at)]"

definition authorization_query :: "string \<Rightarrow> string \<Rightarrow> string \<Rightarrow> (string \<times> jsval) list" where
  "authorization_query state nonce challenge =
     [(''client_id'', JStr CUSTOMER_ACCOUNTS_CLIENT_ID),
      (''response_type'', JStr ''code''),
      (''redirect_uri'', JStr REDIRECT_URI),
      (''scope'', JStr ''openid email customer-account-api:full''),
      (''state'', JStr state),
      (''nonce'', JStr nonce),
      (''code_challenge'', JStr challenge),
      (''code_challenge_method'', JStr ''S256'')]"

text \<open>
  \<^verbatim>\<open>startLogin()\<close>. On the web it only shows a toast. Natively it loads the discovery
  documents unless they are in the state, draws the verifier (64 characters), the state
  and the nonce (24 each) from the random bytes, stores the PKCE object, and opens the
  authorization URL; whatever is thrown ends in \<^verbatim>\<open>setError\<close>.
\<close>

definition startLogin :: "platform \<Rightarrow> device \<Rightarrow> app \<Rightarrow> app" where
  "startLogin P dev s0 =
     (let s = s0\<lparr>error := ''''\<rparr> in
      if \<not> isNative dev then
        s\<lparr>toast := ''Login works in the Android app (not on localhost)'', view := ''account''\<rparr>
      else
        (case oidc_or_fetch P dev s of
           Inl e \<Rightarrow> s\<lparr>error := message_or_String P e\<rparr>
         | Inr oidcJson \<Rightarrow>
             (case custApi_or_fetch P dev s of
                Inl e \<Rightarrow> s\<lparr>error := message_or_String P e\<rparr>
              | Inr custJson \<Rightarrow>
                  (let s1 = s\<lparr>oidc := oidcJson, custApi := custJson\<rparr>;
                       verifier = randomString (getRandomValues dev) 0 64;
                       challenge = sha256Base64Url P verifier;
                       state = randomString (getRandomValues dev) 64 24;
                       nonce = randomString (getRandomValues dev) 88 24;
                       s2 = s1\<lparr>prefs := (prefs s1)(K_PKCE \<mapsto>
                              JSON_stringify P
                                (pkce_object verifier state nonce (Date_now dev)))\<rparr>;
                       authUrl = js_String P (js_oget oidcJson ''authorization_endpoint'')
                                 @ ''?'' @ toQuery P (authorization_query state nonce challenge);
                       s3 = s2\<lparr>opened := opened s2 @ [authUrl]\<rparr>
                   in case Browser_open dev authUrl of
                        None \<Rightarrow> s3
                      | Some e \<Rightarrow> s3\<lparr>error := message_or_String P e\<rparr>))))"

text \<open>
  The verifier, the state and the nonce a login on device \<open>dev\<close> draws, and the object it
  stores.
\<close>

definition login_verifier :: "device \<Rightarrow> string" where
  "login_verifier dev = randomString (getRandomValues dev) 0 64"

definition login_state :: "device \<Rightarrow> string" where
  "login_state dev = randomString (getRandomValues dev) 64 24"

definition login_nonce :: "device \<Rightarrow> string" where
  "login_nonce dev = randomString (getRandomValues dev) 88 24"

definition login_pkce :: "device \<Rightarrow> jsval" where
  "login_pkce dev =
     pkce_object (login_verifier dev) (login_state dev) (login_nonce dev) (Date_now dev)"

text \<open>The form of the token exchange.\<close>

definition token_form :: "string \<Rightarrow> jsval \<Rightarrow> (string \<times> jsval) list" where
  "token_form code verifier =
     [(''grant_type'', JStr ''authorization_code''),
      (''client_id'', JStr CUSTOMER_ACCOUNTS_CLIENT_ID),
      (''redirect_uri'', JStr REDIRECT_URI),
      (''code'', JStr code),
      (''code_verifier'', verifier)]"

text \<open>
  \<^verbatim>\<open>handleOAuthCallback({ code, state })\<close> up to and including the token exchange: it reads
  the PKCE object from the store, throws when there is no verifier or when both states
  are present and differ, loads the OIDC document unless it is in the state, and posts
  the form. \<open>state\<close> is the \<^verbatim>\<open>state\<close> parameter of the callback URL, \<open>None\<close> when absent. What
  follows the exchange (storing the session, removing the PKCE object, loading the
  profile) sends the verifier nowhere and is not modelled.
\<close>

definition handleOAuthCallback ::
  "platform \<Rightarrow> device \<Rightarrow> string \<Rightarrow> string option \<Rightarrow> app \<Rightarrow> (exn + jsval) \<times> app" where
  "handleOAuthCallback P dev code state s =
     (let pkceObj = (case prefs s K_PKCE of
                       None \<Rightarrow> JNull
                     | Some v \<Rightarrow> if v = [] then JNull else safeJsonParse P v)
      in
      if \<not> truthy (js_oget pkceObj ''verifier'') then
        (Inl (Error ''Missing PKCE verifier (login session expired)''), s)
      else if truthy (js_oget pkceObj ''state'')
              \<and> (case state of None \<Rightarrow> False
                  | Some st \<Rightarrow> st \<noteq> [] \<and> js_oget pkceObj ''state'' \<noteq> JStr st)
      then (Inl (Error ''State mismatch (possible stale login)''), s)
      else
        (case oidc_or_fetch P dev s of
           Inl e \<Rightarrow> (Inl e, s)
         | Inr oidcJson \<Rightarrow>
             httpPostForm P dev (js_oget oidcJson ''token_endpoint'')
               (token_form code (js_oget pkceObj ''verifier'')) (s\<lparr>oidc := oidcJson\<rparr>)))"

section \<open>Concrete inputs\<close>

text \<open>A platform whose functions are simple stand-ins, for evaluating the model.\<close>

fun stringify_example :: "jsval \<Rightarrow> string" where
  "stringify_example JUndefined = ''undefined''"
| "stringify_example JNull = ''null''"
| "stringify_example (JBool b) = (if b then ''true'' else ''false'')"
| "stringify_example (JNum n) = ''0''"
| "stringify_example (JStr s) = [CHR 0x22] @ s @ [CHR 0x22]"
| "stringify_example (JArr xs) = ''['' @ js_join '','' (map stringify_example xs) @ '']''"
| "stringify_example (JObj kvs) =
     ''{'' @ js_join '','' (map (\<lambda>kv. [CHR 0x22] @ fst kv @ [CHR 0x22] @ '':'' @
                                  stringify_example (snd kv)) kvs) @ ''}''"

definition P_example :: platform where
  "P_example =
     \<lparr>Number_toString = (\<lambda>n. ''0''),
      String_toNumber = (\<lambda>s. None),
      JSON_parse = (\<lambda>s. if s = ''{}'' then Inr (JObj []) else Inl ''SyntaxError''),
      JSON_stringify = stringify_example,
      atob = (\<lambda>s. Some s),
      decodeURIComponent = (\<lambda>s. Some s),
      SHA256 = (\<lambda>s. s),
      TextEncoder_encode = (\<lambda>s. s),
      URLSearchParams_toString = (\<lambda>ps. js_join ''&'' (map (\<lambda>p. fst p @ ''='' @ snd p) ps)),
      TypeError_message = ''Cannot read properties of undefined'',
      InvalidCharacterError_message = ''The string to be decoded is not correctly encoded.''\<rparr>"

text \<open>An app state after start-up with a saved cart, a saved session and cached orders.\<close>

definition app_saved :: app where
  "app_saved =
     \<lparr>error = '''', toast = '''', vatMode = ''ex'',
      auth = JObj [(''access_token'', JStr ''shcat_1'')],
      userEmail = ''buyer@example.com'', userName = ''A Buyer'', isNonVatCustomer = True,
      view = ''account'', cartId = JStr ''gid://shopify/Cart/old'', cart = JNull,
      loadingCart = False, orders = [], activeOrder = None,
      oidc = JNull, custApi = JNull, opened = [], posted = [],
      prefs = [K_CART_ID \<mapsto> ''gid://shopify/Cart/old'',
               K_AUTH \<mapsto> ''{}'', K_PROFILE \<mapsto> ''{}'', K_ORDERS_CACHE \<mapsto> ''{}'',
               K_VAT_MODE \<mapsto> ''ex''],
      sf_log = []\<rparr>"

text \<open>
  A Storefront API on which the first call fails (the saved cart cannot be loaded), the
  second returns a new cart and the third returns that cart.
\<close>

definition sf_recover :: storefront where
  "sf_recover n r =
     (if n = 0 then Inl (Error ''Load failed'')
      else if n = 1 then
        Inr (JObj [(''cartCreate'', JObj [(''cart'', JObj [(''id'', JStr ''gid://shopify/Cart/new'')])])])
      else Inr (JObj [(''cart'', JObj [(''id'', JStr ''gid://shopify/Cart/new'')])]))"




text \<open>
  An environment with both tokens set and nothing else, a valid VAT submission, and an
  API that answers the search with one customer, the metafield write without errors and
  the tag add with a user error. The platform \<open>P_vat\<close> parses exactly these answers.
\<close>

definition env_tokens :: env where
  "env_tokens = [''SHOPIFY_ADMIN_API_TOKEN'' \<mapsto> ''shpat_1'',
                 ''SHOPIFY_STOREFRONT_TOKEN'' \<mapsto> ''sf_1'']"

definition vat_submission :: req where
  "vat_submission =
     \<lparr>req_method = ''POST'',
      req_body = JObj [(''customerEmail'', JStr ''buyer@example.com''),
                       (''businessName'', JStr ''Acme Ltd''),
                       (''country'', JStr ''Ireland''),
                       (''vatNumber'', JStr ''IE1234567T'')]\<rparr>"

definition search_answer :: jsval where
  "search_answer = JObj [(''data'', JObj [(''customers'', JObj [(''edges'',
       JArr [JObj [(''node'', JObj [(''id'', JStr ''gid://shopify/Customer/7''),
                                   (''email'', JStr ''buyer@example.com'')])]])])])]"

definition metafields_answer :: jsval where
  "metafields_answer = JObj [(''data'', JObj [(''metafieldsSet'',
       JObj [(''userErrors'', JArr []), (''metafields'', JArr [])])])]"

definition tag_answer :: jsval where
  "tag_answer = JObj [(''data'', JObj [(''tagsAdd'',
       JObj [(''userErrors'', JArr [JObj [(''field'', JArr [JStr ''id'']),
                                         (''message'', JStr ''Customer does not exist'')]]),
             (''node'', JNull)])])]"

definition P_vat :: platform where
  "P_vat = P_example\<lparr>JSON_parse :=
     (\<lambda>s. if s = ''search'' then Inr search_answer
          else if s = ''metafields'' then Inr metafields_answer
          else if s = ''tag'' then Inr tag_answer
          else if s = ''graphql'' then Inr (JObj [(''query'', JStr ''{ shop { name } }'')])
          else if s = ''shop'' then Inr (JObj [(''data'', JObj [(''shop'', JObj [(''name'', JStr ''Ace Fixings'')])])])
          else Inl ''Unexpected token'')\<rparr>"

definition fetch_vat :: fetch where
  "fetch_vat n r =
     Inr \<lparr>http_status = 200,
          http_text = (if n = 0 then ''search'' else if n = 1 then ''metafields'' else ''tag'')\<rparr>"

text \<open>A POST to the proxy carrying a query, and an API that answers it.\<close>

definition event_post :: event where
  "event_post = \<lparr>httpMethod = ''POST'', body = Some ''graphql''\<rparr>"

definition fetch_shop :: fetch where
  "fetch_shop n r = Inr \<lparr>http_status = 200, http_text = ''shop''\<rparr>"






text \<open>
  A native device whose discovery documents name the two endpoints, whose random bytes
  count upwards and whose token endpoint answers with an access token; and a platform
  that parses the discovery document and the stored PKCE object.
\<close>

definition discovery_document :: jsval where
  "discovery_document =
     JObj [(''authorization_endpoint'', JStr ''https://shopify.com/authentication/1/oauth/authorize''),
           (''token_endpoint'', JStr ''https://shopify.com/authentication/1/oauth/token'')]"

definition device_example :: device where
  "device_example =
     \<lparr>isNative = True,
      httpGetText = (\<lambda>u. Inr ''discovery''),
      getRandomValues = (\<lambda>i. 7 * i + 3),
      Date_now = 1700000000000,
      Browser_open = (\<lambda>u. None),
      token_answer = (\<lambda>u b. Inr (JObj [(''access_token'', JStr ''shcat_1'')]))\<rparr>"

definition pkce_example :: jsval where
  "pkce_example =
     pkce_object (randomString (getRandomValues device_example) 0 64)
       (randomString (getRandomValues device_example) 64 24)
       (randomString (getRandomValues device_example) 88 24) (Date_now device_example)"

definition P_pkce :: platform where
  "P_pkce = P_example\<lparr>JSON_parse :=
     (\<lambda>s. if s = ''discovery'' then Inr discovery_document
          else if s = stringify_example pkce_example then Inr pkce_example
          else Inl ''Unexpected token'')\<rparr>"

section \<open>Properties\<close>

subsection \<open>Base64 and base64url\<close>

lemma alphabet_lengths: "length base64_alphabet = 64" "length base64url_alphabet = 64"
  by (simp_all add: base64_alphabet_def base64url_alphabet_def)

lemma map_url_char: "map url_char base64_alphabet = base64url_alphabet"
  by (simp add: base64_alphabet_def base64url_alphabet_def url_char_def)

lemma url_char_nth: "i < 64 \<Longrightarrow> url_char (base64_alphabet ! i) = base64url_alphabet ! i"
  using nth_map [of i base64_alphabet url_char] by (simp add: map_url_char alphabet_lengths)

lemma url_char_eq: "url_char CHR ''='' = CHR ''=''"
  by (simp add: url_char_def)

lemma no_eq_in_url: "CHR ''='' \<notin> set base64url_alphabet"
  by (simp add: base64url_alphabet_def)

lemma url_nth_not_eq: "i < 64 \<Longrightarrow> base64url_alphabet ! i \<noteq> CHR ''=''"
  using no_eq_in_url nth_mem [of i base64url_alphabet] by (metis alphabet_lengths(2))

lemma sextet_bounds:
  fixes a b c :: char
  shows "of_char a div 4 < (64::nat)"
    and "(of_char a mod 4) * 16 < (64::nat)"
    and "(of_char a mod 4) * 16 + of_char b div 16 < (64::nat)"
    and "(of_char b mod 16) * 4 < (64::nat)"
    and "(of_char b mod 16) * 4 + of_char c div 64 < (64::nat)"
    and "of_char c mod 64 < (64::nat)"
proof -
  have a: "(of_char a :: nat) < 256" and b: "(of_char b :: nat) < 256"
    and c: "(of_char c :: nat) < 256"
    by (rule nat_of_char_less_256)+
  show "of_char a div 4 < (64::nat)" using a by arith
  have m4: "(of_char a :: nat) mod 4 \<le> 3" by arith
  have m16: "(of_char b :: nat) mod 16 \<le> 15" by arith
  have d16: "(of_char b :: nat) div 16 \<le> 15" using b by arith
  have d64: "(of_char c :: nat) div 64 \<le> 3" using c by arith
  show "(of_char a mod 4) * 16 < (64::nat)" using m4 by arith
  show "(of_char a mod 4) * 16 + of_char b div 16 < (64::nat)" using m4 d16 by arith
  show "(of_char b mod 16) * 4 < (64::nat)" using m16 by arith
  show "(of_char b mod 16) * 4 + of_char c div 64 < (64::nat)" using m16 d64 by arith
  show "of_char c mod 64 < (64::nat)" by simp
qed


lemma strip_trailing_eq_append:
  assumes "\<forall>c \<in> set xs. c \<noteq> CHR ''=''"
  shows "strip_trailing_eq (xs @ ys) = xs @ strip_trailing_eq ys"
proof (cases "\<forall>c \<in> set ys. c = CHR ''=''")
  case True
  then have ys: "dropWhile (\<lambda>c. c = CHR ''='') (rev ys) = []" by simp
  have "dropWhile (\<lambda>c. c = CHR ''='') (rev xs) = rev xs"
    using assms by (cases "rev xs") auto
  then show ?thesis using True ys by (simp add: strip_trailing_eq_def dropWhile_append)
next
  case False
  then show ?thesis by (auto simp: strip_trailing_eq_def dropWhile_append)
qed

lemma strip_trailing_eq_padding:
  "strip_trailing_eq [] = []" "strip_trailing_eq [CHR ''=''] = []"
  "strip_trailing_eq [CHR ''='', CHR ''=''] = []"
  by (simp_all add: strip_trailing_eq_def)

lemma btoa_url:
  "strip_trailing_eq (map url_char (btoa bs)) = base64url_unpadded bs"
proof (induction bs rule: btoa.induct)
  case 1
  show ?case by (simp add: strip_trailing_eq_def)
next
  case (2 a)
  let ?xs = "[base64url_alphabet ! (of_char a div 4),
              base64url_alphabet ! ((of_char a mod 4) * 16)]"
  have "map url_char (btoa [a]) = ?xs @ [CHR ''='', CHR ''='']"
    by (simp add: url_char_nth sextet_bounds url_char_eq)
  moreover have "\<forall>c \<in> set ?xs. c \<noteq> CHR ''=''"
    by (simp add: url_nth_not_eq sextet_bounds)
  ultimately show ?case
    using strip_trailing_eq_append [of ?xs "[CHR ''='', CHR ''='']"]
    by (simp add: strip_trailing_eq_padding)
next
  case (3 a b)
  let ?xs = "[base64url_alphabet ! (of_char a div 4),
              base64url_alphabet ! ((of_char a mod 4) * 16 + of_char b div 16),
              base64url_alphabet ! ((of_char b mod 16) * 4)]"
  have "map url_char (btoa [a, b]) = ?xs @ [CHR ''='']"
    by (simp add: url_char_nth sextet_bounds url_char_eq)
  moreover have "\<forall>c \<in> set ?xs. c \<noteq> CHR ''=''"
    by (simp add: url_nth_not_eq sextet_bounds)
  ultimately show ?case
    using strip_trailing_eq_append [of ?xs "[CHR ''='']"]
    by (simp add: strip_trailing_eq_padding)
next
  case (4 a b c rest)
  let ?xs = "[base64url_alphabet ! (of_char a div 4),
              base64url_alphabet ! ((of_char a mod 4) * 16 + of_char b div 16),
              base64url_alphabet ! ((of_char b mod 16) * 4 + of_char c div 64),
              base64url_alphabet ! (of_char c mod 64)]"
  have "map url_char (btoa (a # b # c # rest)) = ?xs @ map url_char (btoa rest)"
    by (simp add: url_char_nth sextet_bounds)
  moreover have "\<forall>c \<in> set ?xs. c \<noteq> CHR ''=''"
    by (simp add: url_nth_not_eq sextet_bounds)
  ultimately have "strip_trailing_eq (map url_char (btoa (a # b # c # rest)))
      = ?xs @ strip_trailing_eq (map url_char (btoa rest))"
    using strip_trailing_eq_append [of ?xs "map url_char (btoa rest)"] by simp
  then show ?case using "4.IH" by simp
qed


subsection \<open>The log of Storefront requests\<close>


lemma sf_log_fetchCart:
  "sf_log (snd (fetchCart sf cid s)) = sf_log s @ [CartQuery cid]"
  by (simp add: fetchCart_def shopifyStorefront_def Let_def split: sum.splits)

lemma sf_log_createCart:
  "sf_log (snd (createCart P sf s)) = sf_log s @ [CartCreate]"
  by (simp add: createCart_def shopifyStorefront_def Let_def split: sum.splits)

lemma sf_log_ensureCartId_create:
  "\<exists>rest. sf_log (snd (ensureCartId_create P sf s)) = sf_log s @ CartCreate # rest
          \<and> (\<forall>r \<in> set rest. \<exists>cid. r = CartQuery cid)"
proof (cases "createCart P sf s")
  case (Pair r s1)
  have log1: "sf_log s1 = sf_log s @ [CartCreate]"
    using sf_log_createCart [of P sf s] Pair by simp
  show ?thesis
  proof (cases r)
    case (Inl e)
    then show ?thesis using Pair log1 by (simp add: ensureCartId_create_def)
  next
    case (Inr newId)
    obtain r2 s2 where f: "fetchCart sf newId (s1\<lparr>cartId := newId\<rparr>) = (r2, s2)"
      by (cases "fetchCart sf newId (s1\<lparr>cartId := newId\<rparr>)")
    have log2: "sf_log s2 = sf_log s @ [CartCreate, CartQuery newId]"
      using sf_log_fetchCart [of sf newId "s1\<lparr>cartId := newId\<rparr>"] f log1 by simp
    show ?thesis using Pair Inr f log2
      by (cases r2) (simp_all add: ensureCartId_create_def)
  qed
qed





subsection \<open>The login flow\<close>

lemma replace_url_char:
  "map (\<lambda>c. if c = CHR ''/'' then CHR ''_'' else c)
     (map (\<lambda>c. if c = CHR ''+'' then CHR ''-'' else c) xs) = map url_char xs"
  by (induction xs) (simp_all add: url_char_def)

lemma sha256Base64Url_eq:
  "sha256Base64Url P input = base64url_unpadded (SHA256 P (TextEncoder_encode P input))"
  by (simp only: sha256Base64Url_def Let_def replace_url_char btoa_url)

lemma length_randomString: "length (randomString rand k len) = len"
  by (simp add: randomString_def)

lemma login_verifier_nonempty: "login_verifier dev \<noteq> []"
  using length_randomString [of "getRandomValues dev" 0 64]
  by (auto simp: login_verifier_def)

lemma or_fetch_error:
  "oidc_or_fetch P dev (s\<lparr>error := e\<rparr>) = oidc_or_fetch P dev s"
  "custApi_or_fetch P dev (s\<lparr>error := e\<rparr>) = custApi_or_fetch P dev s"
  by (simp_all add: oidc_or_fetch_def custApi_or_fetch_def)

lemma startLogin_native:
  assumes "isNative dev" and "oidc_or_fetch P dev s = Inr oidcJson"
    and "custApi_or_fetch P dev s = Inr custJson"
  shows "opened (startLogin P dev s)
       = opened s @ [js_String P (js_oget oidcJson ''authorization_endpoint'') @ ''?'' @
           toQuery P (authorization_query (login_state dev) (login_nonce dev)
             (sha256Base64Url P (login_verifier dev)))]"
    and "prefs (startLogin P dev s) K_PKCE = Some (JSON_stringify P (login_pkce dev))"
    and "oidc (startLogin P dev s) = oidcJson"
proof -
  have o: "oidc_or_fetch P dev (s\<lparr>error := ''''\<rparr>) = Inr oidcJson"
    using assms(2) by (simp only: or_fetch_error)
  have c: "custApi_or_fetch P dev (s\<lparr>error := ''''\<rparr>) = Inr custJson"
    using assms(3) by (simp only: or_fetch_error)
  show "opened (startLogin P dev s)
       = opened s @ [js_String P (js_oget oidcJson ''authorization_endpoint'') @ ''?'' @
           toQuery P (authorization_query (login_state dev) (login_nonce dev)
             (sha256Base64Url P (login_verifier dev)))]"
    using assms(1) o c
    by (simp add: startLogin_def Let_def login_state_def login_nonce_def login_verifier_def
          split: option.splits)
  show "prefs (startLogin P dev s) K_PKCE = Some (JSON_stringify P (login_pkce dev))"
    using assms(1) o c
    by (simp add: startLogin_def Let_def login_state_def login_nonce_def login_verifier_def
          login_pkce_def split: option.splits)
  show "oidc (startLogin P dev s) = oidcJson"
    using assms(1) o c
    by (simp add: startLogin_def Let_def split: option.splits)
qed

lemma toQuery_authorization:
  "toQuery P (authorization_query st n ch)
     = URLSearchParams_toString P
         [(''client_id'', CUSTOMER_ACCOUNTS_CLIENT_ID), (''response_type'', ''code''),
          (''redirect_uri'', REDIRECT_URI),
          (''scope'', ''openid email customer-account-api:full''),
          (''state'', st), (''nonce'', n), (''code_challenge'', ch),
          (''code_challenge_method'', ''S256'')]"
  by (simp add: toQuery_def authorization_query_def)

lemma handleOAuthCallback_posted:
  assumes stored: "prefs s2 K_PKCE = Some (JSON_stringify P (login_pkce dev))"
    and nonempty: "JSON_stringify P (login_pkce dev) \<noteq> []"
    and roundtrip: "JSON_parse P (JSON_stringify P (login_pkce dev)) = Inr (login_pkce dev)"
  shows "posted (snd (handleOAuthCallback P dev' code state' s2)) = posted s2
       \<or> (\<exists>u. posted (snd (handleOAuthCallback P dev' code state' s2))
             = posted s2 @ [(u, URLSearchParams_toString P
                 [(''grant_type'', ''authorization_code''),
                  (''client_id'', CUSTOMER_ACCOUNTS_CLIENT_ID),
                  (''redirect_uri'', REDIRECT_URI),
                  (''code'', code),
                  (''code_verifier'', login_verifier dev)])])"
proof -
  have obj: "(case prefs s2 K_PKCE of None \<Rightarrow> JNull
              | Some v \<Rightarrow> if v = [] then JNull else safeJsonParse P v) = login_pkce dev"
    using stored nonempty roundtrip by (simp add: safeJsonParse_def)
  have ver: "js_oget (login_pkce dev) ''verifier'' = JStr (login_verifier dev)"
    by (simp add: login_pkce_def pkce_object_def js_oget_def)
  show ?thesis
    unfolding handleOAuthCallback_def obj Let_def ver
    by (simp add: httpPostForm_def token_form_def Let_def split: sum.splits)
qed

lemma handleOAuthCallback_matching_state:
  assumes stored: "prefs s2 K_PKCE = Some (JSON_stringify P (login_pkce dev))"
    and nonempty: "JSON_stringify P (login_pkce dev) \<noteq> []"
    and roundtrip: "JSON_parse P (JSON_stringify P (login_pkce dev)) = Inr (login_pkce dev)"
    and oidc_ok: "oidc_or_fetch P dev' s2 = Inr oj"
  shows "posted (snd (handleOAuthCallback P dev' code (Some (login_state dev)) s2))
       = posted s2 @ [(js_oget oj ''token_endpoint'', URLSearchParams_toString P
                 [(''grant_type'', ''authorization_code''),
                  (''client_id'', CUSTOMER_ACCOUNTS_CLIENT_ID),
                  (''redirect_uri'', REDIRECT_URI),
                  (''code'', code),
                  (''code_verifier'', login_verifier dev)])]"
proof -
  have obj: "(case prefs s2 K_PKCE of None \<Rightarrow> JNull
              | Some v \<Rightarrow> if v = [] then JNull else safeJsonParse P v) = login_pkce dev"
    using stored nonempty roundtrip by (simp add: safeJsonParse_def)
  have ver: "js_oget (login_pkce dev) ''verifier'' = JStr (login_verifier dev)"
    by (simp add: login_pkce_def pkce_object_def js_oget_def)
  have st: "js_oget (login_pkce dev) ''state'' = JStr (login_state dev)"
    by (simp add: login_pkce_def pkce_object_def js_oget_def)
  show ?thesis
    unfolding handleOAuthCallback_def obj Let_def ver st
    using oidc_ok login_verifier_nonempty [of dev]
    by (simp add: httpPostForm_def token_form_def Let_def)
qed


subsection \<open>Bulk pricing\<close>



subsection \<open>decodeJwt on malformed input\<close>

text \<open>
  C10. For every input that is not a string, or is a string whose split on \<open>.\<close> has fewer
  than two segments, \<open>decodeJwt\<close> returns \<open>null\<close> and does not throw; in particular
  \<open>decodeJwt(null)\<close> and \<open>decodeJwt("")\<close> return \<open>null\<close>.
\<close>

theorem decodeJwt_malformed:
  "(((\<forall>s. jwt \<noteq> JStr s) \<or> (\<exists>s. jwt = JStr s \<and> length (js_split CHR ''.'' s) < 2))
      \<longrightarrow> decodeJwt P jwt = Inr JNull)
   \<and> decodeJwt P JNull = Inr JNull
   \<and> decodeJwt P (JStr '''') = Inr JNull"
  by (cases jwt) (auto simp: decodeJwt_def Let_def)

theorem decodeJwt_malformed_witness:
  "length (js_split CHR ''.'' ''eyJhbGciOiJub25lIn0'') < 2
   \<and> decodeJwt P_example (JStr ''eyJhbGciOiJub25lIn0'') = Inr JNull
   \<and> (\<forall>s. JNum 7 \<noteq> JStr s)
   \<and> decodeJwt P_example (JNum 7) = Inr JNull"
  using decodeJwt_malformed [of "JStr ''eyJhbGciOiJub25lIn0''" P_example]
        decodeJwt_malformed [of "JNum 7" P_example]
  by simp

subsection \<open>Reorder\<close>



subsection \<open>Logout\<close>

text \<open>
  C5, as claimed: on logout the auth token, the customer profile, the orders cache and the
  cart id are all deleted from the Preferences store. The cart id is not: it is still
  stored after \<open>logout\<close>, also after the persistence effects of the next render.
\<close>

theorem logout_keeps_cart_counterexample:
  "prefs app_saved K_CART_ID = Some ''gid://shopify/Cart/old''
   \<and> prefs (logout app_saved) K_CART_ID = Some ''gid://shopify/Cart/old''
   \<and> prefs (persist_effects P_example app_saved (logout app_saved)) K_CART_ID
       = Some ''gid://shopify/Cart/old''"
  by (simp add: logout_def persist_effects_def app_saved_def Let_def
        K_CART_ID_def K_AUTH_def K_PROFILE_def K_ORDERS_CACHE_def K_VAT_MODE_def)

text \<open>
  C5, amended: \<open>logout\<close> deletes the auth token, the customer profile and the orders cache
  from the Preferences store and leaves every other key as it was; the cart id is kept,
  in the state and in the store.
\<close>

theorem logout_removes:
  "prefs (logout s) K_AUTH = None
   \<and> prefs (logout s) K_PROFILE = None
   \<and> prefs (logout s) K_ORDERS_CACHE = None
   \<and> (\<forall>k. k \<notin> {K_AUTH, K_PROFILE, K_ORDERS_CACHE} \<longrightarrow> prefs (logout s) k = prefs s k)
   \<and> cartId (logout s) = cartId s
   \<and> prefs (persist_effects P s (logout s)) K_CART_ID = prefs s K_CART_ID"
  by (simp add: logout_def persist_effects_def Let_def
        K_CART_ID_def K_AUTH_def K_PROFILE_def K_ORDERS_CACHE_def K_VAT_MODE_def)

theorem logout_removes_witness:
  "K_CART_ID \<notin> {K_AUTH, K_PROFILE, K_ORDERS_CACHE}
   \<and> prefs (logout app_saved) K_CART_ID = prefs app_saved K_CART_ID
   \<and> prefs app_saved K_AUTH = Some ''{}''
   \<and> prefs (logout app_saved) K_AUTH = None"
  using logout_removes [of app_saved P_example]
  by (simp add: app_saved_def K_CART_ID_def K_AUTH_def K_PROFILE_def K_ORDERS_CACHE_def
        K_VAT_MODE_def)

subsection \<open>ensureCartId\<close>

text \<open>
  C6, as claimed: when the fetch of the saved cart fails, \<open>ensureCartId\<close> propagates the
  error instead of creating a fresh cart. It does not: with a failing first fetch it
  creates a cart and returns the new id.
\<close>

theorem ensureCartId_recovers_counterexample:
  "truthy (cartId app_saved)
   \<and> fst (fetchCart sf_recover (cartId app_saved) app_saved) = Inl (Error ''Load failed'')
   \<and> fst (ensureCartId P_example sf_recover app_saved) = Inr (JStr ''gid://shopify/Cart/new'')
   \<and> sf_log (snd (ensureCartId P_example sf_recover app_saved))
       = [CartQuery (JStr ''gid://shopify/Cart/old''), CartCreate,
          CartQuery (JStr ''gid://shopify/Cart/new'')]"
  by code_simp

text \<open>
  C6, amended: when the fetch of the saved cart fails, \<open>ensureCartId\<close> drops that error
  and falls back to creating a cart: a \<open>CartCreate\<close> request always follows the failed
  query, the new id is returned when the creation and the fetch of the new cart succeed,
  and the only errors it returns are those of \<open>createCart\<close> or of fetching the new cart.
\<close>

theorem ensureCartId_falls_back:
  assumes "truthy (cartId s)" and "fetchCart sf (cartId s) s = (Inl e, s1)"
  shows "(\<exists>rest. sf_log (snd (ensureCartId P sf s))
                   = sf_log s @ CartQuery (cartId s) # CartCreate # rest)
    \<and> (\<forall>newId s2 s3 u.
          createCart P sf s1 = (Inr newId, s2)
          \<and> fetchCart sf newId (s2\<lparr>cartId := newId\<rparr>) = (Inr u, s3)
          \<longrightarrow> ensureCartId P sf s = (Inr newId, s3))
    \<and> (\<forall>e'. fst (ensureCartId P sf s) = Inl e' \<longrightarrow>
          fst (createCart P sf s1) = Inl e'
          \<or> (\<exists>newId s2. createCart P sf s1 = (Inr newId, s2)
                \<and> fst (fetchCart sf newId (s2\<lparr>cartId := newId\<rparr>)) = Inl e'))"
proof -
  have eq: "ensureCartId P sf s = ensureCartId_create P sf s1"
    using assms by (simp add: ensureCartId_def)
  have log1: "sf_log s1 = sf_log s @ [CartQuery (cartId s)]"
    using sf_log_fetchCart [of sf "cartId s" s] assms(2) by simp
  obtain rest where "sf_log (snd (ensureCartId_create P sf s1)) = sf_log s1 @ CartCreate # rest"
    using sf_log_ensureCartId_create [of P sf s1] by blast
  then have a: "\<exists>rest. sf_log (snd (ensureCartId P sf s))
                   = sf_log s @ CartQuery (cartId s) # CartCreate # rest"
    using eq log1 by simp
  have b: "\<forall>newId s2 s3 u.
          createCart P sf s1 = (Inr newId, s2)
          \<and> fetchCart sf newId (s2\<lparr>cartId := newId\<rparr>) = (Inr u, s3)
          \<longrightarrow> ensureCartId P sf s = (Inr newId, s3)"
    by (simp add: eq ensureCartId_create_def)
  have c: "\<forall>e'. fst (ensureCartId P sf s) = Inl e' \<longrightarrow>
          fst (createCart P sf s1) = Inl e'
          \<or> (\<exists>newId s2. createCart P sf s1 = (Inr newId, s2)
                \<and> fst (fetchCart sf newId (s2\<lparr>cartId := newId\<rparr>)) = Inl e')"
    unfolding eq
    by (auto simp: ensureCartId_create_def split: prod.splits sum.splits)
  from a b c show ?thesis by blast
qed

theorem ensureCartId_falls_back_witness:
  "truthy (cartId app_saved)
   \<and> fst (fetchCart sf_recover (cartId app_saved) app_saved) = Inl (Error ''Load failed'')
   \<and> (\<exists>rest. sf_log (snd (ensureCartId P_example sf_recover app_saved))
        = sf_log app_saved @ CartQuery (cartId app_saved) # CartCreate # rest)"
proof -
  have t: "truthy (cartId app_saved)" by code_simp
  have f: "fst (fetchCart sf_recover (cartId app_saved) app_saved) = Inl (Error ''Load failed'')"
    by code_simp
  then have "fetchCart sf_recover (cartId app_saved) app_saved
      = (Inl (Error ''Load failed''), snd (fetchCart sf_recover (cartId app_saved) app_saved))"
    by (metis prod.collapse)
  from ensureCartId_falls_back [OF t this, of P_example] t f show ?thesis by blast
qed

subsection \<open>The requests of the VAT endpoint\<close>

lemma graphqlRequest_eq:
  "graphqlRequest P fetch d t v q vars issued =
     (graphql_result P (fetch (length issued) (graphql_init P d t v q vars)),
      issued @ [graphql_init P d t v q vars])"
  by (simp add: graphqlRequest_def Let_def)

lemma url_graphql_init:
  "url (graphql_init P d t v q vars) = ''https://'' @ d @ ''/admin/api/'' @ v @ ''/graphql.json''"
  by (simp add: graphql_init_def)

lemma vat_step3_issued:
  "snd (vat_step3 P fetch d t v cid issued2)
     = issued2 @ [graphql_init P d t v addTagMutation (tag_variables cid)]"
  by (simp add: vat_step3_def graphqlRequest_eq split: sum.splits)

lemma vat_step3_result:
  "graphql_result P (fetch (length issued2)
       (graphql_init P d t v addTagMutation (tag_variables cid))) = Inr tr
   \<Longrightarrow> fst (vat_step3 P fetch d t v cid issued2) = Inr success_response"
  by (simp add: vat_step3_def graphqlRequest_eq)

lemma vat_step2_issued:
  "snd (vat_step2 P fetch d t v cid vat name country issued1)
     = issued1 @ [graphql_init P d t v updateMetafieldMutation
                    (metafield_variables cid vat name country)]
   \<or> snd (vat_step2 P fetch d t v cid vat name country issued1)
     = issued1 @ [graphql_init P d t v updateMetafieldMutation
                    (metafield_variables cid vat name country),
                  graphql_init P d t v addTagMutation (tag_variables cid)]"
  by (simp add: vat_step2_def graphqlRequest_eq vat_step3_issued
        split: sum.splits option.splits)


lemma vat_step1_search:
  "\<exists>rest. snd (vat_step1 P fetch d t v email name country vat)
     = graphql_init P d t v searchQuery (search_variables P email) # rest"
proof -
  let ?s = "graphql_init P d t v searchQuery (search_variables P email)"
  show ?thesis
  proof (cases "graphql_result P (fetch 0 ?s)")
    case (Inl e)
    then show ?thesis by (simp add: vat_step1_def graphqlRequest_eq)
  next
    case (Inr sr)
    show ?thesis
    proof (cases "no_customer sr")
      case True
      then show ?thesis using Inr by (simp add: vat_step1_def graphqlRequest_eq)
    next
      case False
      show ?thesis
      proof (cases "customer_id sr")
        case (Inl e)
        then show ?thesis using Inr False by (simp add: vat_step1_def graphqlRequest_eq)
      next
        case (Inr cid)
        then show ?thesis
          using \<open>graphql_result P (fetch 0 ?s) = Inr sr\<close> False
            vat_step2_issued [of P fetch d t v cid vat name country "[?s]"]
          by (auto simp: vat_step1_def graphqlRequest_eq)
      qed
    qed
  qed
qed

lemma vat_step1_found:
  assumes "graphql_result P (fetch 0 (graphql_init P d t v searchQuery
              (search_variables P email))) = Inr sr"
    and "\<not> no_customer sr" and "customer_id sr = Inr cid"
  shows "vat_step1 P fetch d t v email name country vat
     = vat_step2 P fetch d t v cid vat name country
         [graphql_init P d t v searchQuery (search_variables P email)]"
  using assms by (simp add: vat_step1_def graphqlRequest_eq)

lemma vat_step1_not_found:
  assumes "graphql_result P (fetch 0 (graphql_init P d t v searchQuery
              (search_variables P email))) = Inr sr"
    and "no_customer sr"
  shows "vat_step1 P fetch d t v email name country vat
     = (Inr (not_found_response P email),
        [graphql_init P d t v searchQuery (search_variables P email)])"
  using assms by (simp add: vat_step1_def graphqlRequest_eq)

lemma vat_step1_urls:
  assumes r: "r \<in> set (snd (vat_step1 P fetch d t v email name country vat))"
  shows "url r = ''https://'' @ d @ ''/admin/api/'' @ v @ ''/graphql.json''"
proof -
  let ?s = "graphql_init P d t v searchQuery (search_variables P email)"
  show ?thesis
  proof (cases "graphql_result P (fetch 0 ?s)")
    case (Inl e)
    then show ?thesis using r
      by (auto simp: vat_step1_def graphqlRequest_eq url_graphql_init)
  next
    case (Inr sr)
    show ?thesis
    proof (cases "no_customer sr")
      case True
      then show ?thesis using Inr r
        by (auto simp: vat_step1_def graphqlRequest_eq url_graphql_init)
    next
      case False
      show ?thesis
      proof (cases "customer_id sr")
        case (Inl e)
        then show ?thesis using Inr False r
          by (auto simp: vat_step1_def graphqlRequest_eq url_graphql_init)
      next
        case (Inr cid)
        have "vat_step1 P fetch d t v email name country vat
                = vat_step2 P fetch d t v cid vat name country [?s]"
          using \<open>graphql_result P (fetch 0 ?s) = Inr sr\<close> False Inr
          by (simp add: vat_step1_def graphqlRequest_eq)
        then show ?thesis
          using r vat_step2_issued [of P fetch d t v cid vat name country "[?s]"]
          by (auto simp: url_graphql_init)
      qed
    qed
  qed
qed

subsection \<open>The requests of the two handlers\<close>

lemma vat_handler_issued:
  "snd (vat_handler P env fetch rq)
     = (if req_method rq = ''POST'' then snd (vat_try P env fetch rq) else [])"
  by (simp add: vat_handler_def split: prod.splits sum.splits)

lemma vat_try_valid:
  assumes "truthy (js_oget (req_body rq) ''customerEmail'')"
    and "truthy (js_oget (req_body rq) ''businessName'')"
    and "truthy (js_oget (req_body rq) ''country'')"
    and "truthy (js_oget (req_body rq) ''vatNumber'')"
    and "env_set env ''SHOPIFY_ADMIN_API_TOKEN''"
  shows "vat_try P env fetch rq
     = vat_step1 P fetch (vat_shopDomain env) (the (env ''SHOPIFY_ADMIN_API_TOKEN''))
         (vat_apiVersion env) (js_oget (req_body rq) ''customerEmail'')
         (js_oget (req_body rq) ''businessName'') (js_oget (req_body rq) ''country'')
         (js_oget (req_body rq) ''vatNumber'')"
proof -
  have "\<not> nullish (req_body rq)"
    using assms(1) by (cases "req_body rq") (simp_all add: js_oget_def)
  then have "js_get (req_body rq) ''customerEmail'' = Inr (js_oget (req_body rq) ''customerEmail'')"
    by (cases "req_body rq") (simp_all add: js_oget_def)
  then show ?thesis using assms by (simp add: vat_try_def Let_def)
qed

lemma vat_try_urls:
  assumes "r \<in> set (snd (vat_try P env fetch rq))"
  shows "url r = ''https://'' @ vat_shopDomain env @ ''/admin/api/'' @ vat_apiVersion env
                   @ ''/graphql.json''"
  using assms vat_step1_urls
  by (auto simp: vat_try_def Let_def split: sum.splits if_splits)

lemma shopify_handler_issued:
  "snd (shopify_handler P env fetch ev) = []
   \<or> (\<exists>q vars. snd (shopify_handler P env fetch ev) = [shopify_request P env q vars])"
  by (auto simp: shopify_handler_def Let_def split: sum.splits)

lemma url_shopify_request:
  "url (shopify_request P env q vars)
     = ''https://'' @ env_or env ''SHOP_DOMAIN'' ''acefixings.com'' @ ''/api/''
         @ env_or env ''SHOPIFY_API_VERSION'' ''2025-07'' @ ''/graphql.json''"
  by (simp add: shopify_request_def Let_def)

lemma shopify_handler_forwards:
  assumes "httpMethod ev = ''POST''"
    and "JSON_parse P (event_body_text ev) = Inr b"
    and "truthy (js_oget b ''query'')"
    and "env_set env ''SHOPIFY_STOREFRONT_TOKEN''"
  shows "snd (shopify_handler P env fetch ev)
     = [shopify_request P env (js_oget b ''query'') (js_oget b ''variables'')]"
proof -
  have "\<not> nullish b"
    using assms(3) by (cases b) (simp_all add: js_oget_def)
  then have "js_get b ''query'' = Inr (js_oget b ''query'')"
    by (cases b) (simp_all add: js_oget_def)
  then show ?thesis using assms
    by (simp add: shopify_handler_def Let_def split: sum.splits)
qed

subsection \<open>Dependence on the answers of the API\<close>








subsection \<open>Where the two endpoints send their requests\<close>

text \<open>
  C1, as claimed: both endpoints send the outgoing request of every valid POST to the
  shop's \<open>/admin/api/<version>/graphql.json\<close>. The proxy in
  \<^verbatim>\<open>netlify/functions/shopify.js\<close> does not: a valid POST is forwarded to
  \<open>/api/<version>/graphql.json\<close>, the Storefront API.
\<close>

theorem proxy_endpoint_counterexample:
  "httpMethod event_post = ''POST''
   \<and> map url (snd (shopify_handler P_vat env_tokens fetch_shop event_post))
       = [''https://acefixings.com/api/2025-07/graphql.json'']
   \<and> ''https://acefixings.com/api/2025-07/graphql.json''
       \<noteq> ''https://acefixings.com/admin/api/2025-07/graphql.json''"
  by code_simp

text \<open>
  C1, amended: every request of the VAT endpoint goes to
  \<open>https://<shop>/admin/api/<version>/graphql.json\<close> (the Admin API), and a valid submission
  with the admin token configured issues at least one; every request of the proxy goes to
  \<open>https://<shop>/api/<version>/graphql.json\<close> (the Storefront API), and for a POST whose
  body parses to a value with a truthy \<open>query\<close>, with the Storefront token configured, the
  proxy issues exactly one request, whose body is the incoming query and variables.
\<close>

theorem handlers_endpoints:
  "(\<forall>r \<in> set (snd (vat_handler P env fetch rq)).
      url r = ''https://'' @ vat_shopDomain env @ ''/admin/api/'' @ vat_apiVersion env
                @ ''/graphql.json'')
   \<and> (\<forall>r \<in> set (snd (shopify_handler P env fetch' ev)).
      url r = ''https://'' @ env_or env ''SHOP_DOMAIN'' ''acefixings.com'' @ ''/api/''
                @ env_or env ''SHOPIFY_API_VERSION'' ''2025-07'' @ ''/graphql.json'')
   \<and> (httpMethod ev = ''POST'' \<and> JSON_parse P (event_body_text ev) = Inr b
        \<and> truthy (js_oget b ''query'') \<and> env_set env ''SHOPIFY_STOREFRONT_TOKEN''
      \<longrightarrow> snd (shopify_handler P env fetch' ev)
            = [shopify_request P env (js_oget b ''query'') (js_oget b ''variables'')]
          \<and> fetch_body (shopify_request P env (js_oget b ''query'') (js_oget b ''variables''))
            = JSON_stringify P (JObj [(''query'', js_oget b ''query''),
                 (''variables'', js_or (js_oget b ''variables'') (JObj []))]))
   \<and> (req_method rq = ''POST''
        \<and> truthy (js_oget (req_body rq) ''customerEmail'')
        \<and> truthy (js_oget (req_body rq) ''businessName'')
        \<and> truthy (js_oget (req_body rq) ''country'')
        \<and> truthy (js_oget (req_body rq) ''vatNumber'')
        \<and> env_set env ''SHOPIFY_ADMIN_API_TOKEN''
      \<longrightarrow> snd (vat_handler P env fetch rq) \<noteq> [])"
proof -
  have vat: "\<forall>r \<in> set (snd (vat_handler P env fetch rq)).
      url r = ''https://'' @ vat_shopDomain env @ ''/admin/api/'' @ vat_apiVersion env
                @ ''/graphql.json''"
    using vat_try_urls [of _ P env fetch rq] by (simp add: vat_handler_issued)
  have proxy: "\<forall>r \<in> set (snd (shopify_handler P env fetch' ev)).
      url r = ''https://'' @ env_or env ''SHOP_DOMAIN'' ''acefixings.com'' @ ''/api/''
                @ env_or env ''SHOPIFY_API_VERSION'' ''2025-07'' @ ''/graphql.json''"
    using shopify_handler_issued [of P env fetch' ev] url_shopify_request [of P env]
    by auto
  have fwd: "httpMethod ev = ''POST'' \<and> JSON_parse P (event_body_text ev) = Inr b
        \<and> truthy (js_oget b ''query'') \<and> env_set env ''SHOPIFY_STOREFRONT_TOKEN''
      \<longrightarrow> snd (shopify_handler P env fetch' ev)
            = [shopify_request P env (js_oget b ''query'') (js_oget b ''variables'')]
          \<and> fetch_body (shopify_request P env (js_oget b ''query'') (js_oget b ''variables''))
            = JSON_stringify P (JObj [(''query'', js_oget b ''query''),
                 (''variables'', js_or (js_oget b ''variables'') (JObj []))])"
    using shopify_handler_forwards [of ev P b env fetch']
    by (simp add: shopify_request_def Let_def)
  have some: "req_method rq = ''POST''
        \<and> truthy (js_oget (req_body rq) ''customerEmail'')
        \<and> truthy (js_oget (req_body rq) ''businessName'')
        \<and> truthy (js_oget (req_body rq) ''country'')
        \<and> truthy (js_oget (req_body rq) ''vatNumber'')
        \<and> env_set env ''SHOPIFY_ADMIN_API_TOKEN''
      \<longrightarrow> snd (vat_handler P env fetch rq) \<noteq> []"
  proof (intro impI, elim conjE)
    assume h: "req_method rq = ''POST''" "truthy (js_oget (req_body rq) ''customerEmail'')"
      "truthy (js_oget (req_body rq) ''businessName'')"
      "truthy (js_oget (req_body rq) ''country'')"
      "truthy (js_oget (req_body rq) ''vatNumber'')"
      "env_set env ''SHOPIFY_ADMIN_API_TOKEN''"
    have "vat_try P env fetch rq
      = vat_step1 P fetch (vat_shopDomain env) (the (env ''SHOPIFY_ADMIN_API_TOKEN''))
         (vat_apiVersion env) (js_oget (req_body rq) ''customerEmail'')
         (js_oget (req_body rq) ''businessName'') (js_oget (req_body rq) ''country'')
         (js_oget (req_body rq) ''vatNumber'')"
      using vat_try_valid [OF h(2) h(3) h(4) h(5) h(6)] .
    then show "snd (vat_handler P env fetch rq) \<noteq> []"
      using h(1) vat_step1_search [of P fetch "vat_shopDomain env"
          "the (env ''SHOPIFY_ADMIN_API_TOKEN'')" "vat_apiVersion env"
          "js_oget (req_body rq) ''customerEmail''" "js_oget (req_body rq) ''businessName''"
          "js_oget (req_body rq) ''country''" "js_oget (req_body rq) ''vatNumber''"]
      by (auto simp: vat_handler_issued)
  qed
  from vat proxy fwd some show ?thesis by blast
qed

theorem handlers_endpoints_witness:
  "httpMethod event_post = ''POST''
   \<and> JSON_parse P_vat (event_body_text event_post)
       = Inr (JObj [(''query'', JStr ''{ shop { name } }'')])
   \<and> truthy (js_oget (JObj [(''query'', JStr ''{ shop { name } }'')]) ''query'')
   \<and> env_set env_tokens ''SHOPIFY_STOREFRONT_TOKEN''
   \<and> snd (shopify_handler P_vat env_tokens fetch_shop event_post)
       = [shopify_request P_vat env_tokens (JStr ''{ shop { name } }'') JUndefined]
   \<and> url (shopify_request P_vat env_tokens (JStr ''{ shop { name } }'') JUndefined)
       = ''https://acefixings.com/api/2025-07/graphql.json''
   \<and> url (hd (snd (vat_handler P_vat env_tokens fetch_vat vat_submission)))
       = ''https://acefixings.myshopify.com/admin/api/2024-01/graphql.json''"
proof -
  let ?b = "JObj [(''query'', JStr ''{ shop { name } }'')]"
  have h1: "httpMethod event_post = ''POST''" by code_simp
  have h2: "JSON_parse P_vat (event_body_text event_post) = Inr ?b" by code_simp
  have h3: "truthy (js_oget ?b ''query'')" by code_simp
  have h4: "env_set env_tokens ''SHOPIFY_STOREFRONT_TOKEN''" by code_simp
  have q: "js_oget ?b ''query'' = JStr ''{ shop { name } }''" by code_simp
  have v: "js_oget ?b ''variables'' = JUndefined" by code_simp
  have mem: "hd (snd (vat_handler P_vat env_tokens fetch_vat vat_submission))
      \<in> set (snd (vat_handler P_vat env_tokens fetch_vat vat_submission))"
    by code_simp
  have d: "vat_shopDomain env_tokens = ''acefixings.myshopify.com''" by code_simp
  have a: "vat_apiVersion env_tokens = ''2024-01''" by code_simp
  have u: "url (shopify_request P_vat env_tokens (JStr ''{ shop { name } }'') JUndefined)
       = ''https://acefixings.com/api/2025-07/graphql.json''" by code_simp
  note inst = handlers_endpoints [of P_vat env_tokens fetch_vat vat_submission fetch_shop
        event_post ?b]
  from inst h1 h2 h3 h4 have
    "snd (shopify_handler P_vat env_tokens fetch_shop event_post)
       = [shopify_request P_vat env_tokens (js_oget ?b ''query'') (js_oget ?b ''variables'')]"
    by blast
  moreover from inst mem have
    "url (hd (snd (vat_handler P_vat env_tokens fetch_vat vat_submission)))
       = ''https://'' @ vat_shopDomain env_tokens @ ''/admin/api/'' @ vat_apiVersion env_tokens
                @ ''/graphql.json''"
    by blast
  ultimately show ?thesis using h1 h2 h3 h4 u by (simp add: q v d a)
qed

subsection \<open>Validation failures of the VAT endpoint\<close>




subsection \<open>The sequence of the VAT endpoint\<close>

text \<open>
  C2, as claimed: every POST whose body contains the four fields leads to the customer
  search. With \<^verbatim>\<open>SHOPIFY_ADMIN_API_TOKEN\<close> unset it does not: the handler answers 500 before
  any request.
\<close>

theorem vat_handler_no_token_counterexample:
  "req_method vat_submission = ''POST''
   \<and> truthy (js_oget (req_body vat_submission) ''customerEmail'')
   \<and> truthy (js_oget (req_body vat_submission) ''businessName'')
   \<and> truthy (js_oget (req_body vat_submission) ''country'')
   \<and> truthy (js_oget (req_body vat_submission) ''vatNumber'')
   \<and> vat_handler P_vat Map.empty fetch_vat vat_submission
       = (\<lparr>status = 500, json = JObj [(''error'', JStr ''Missing admin API token'')]\<rparr>, [])"
  by code_simp

text \<open>
  C2, amended: for every POST whose body has a truthy value for each of the four fields,
  with the admin token configured, the handler first issues the customer search by email;
  when the search returns no customer it answers 404 and issues nothing else; when it
  returns a customer id, the second request is the \<open>metafieldsSet\<close> writing \<open>vat_number\<close>,
  \<open>business_name\<close> and \<open>business_country\<close> for that id; when that returns without errors,
  the third and last request is the \<open>tagsAdd\<close> of \<open>No Vat Customers\<close> for that id; and when
  the tag request returns, whatever user errors \<open>tagsAdd\<close> reports, the answer is 200 with
  \<open>success: true\<close>.
\<close>

theorem vat_handler_sequence:
  assumes post: "req_method rq = ''POST''"
    and email: "truthy (js_oget (req_body rq) ''customerEmail'')"
    and name: "truthy (js_oget (req_body rq) ''businessName'')"
    and country: "truthy (js_oget (req_body rq) ''country'')"
    and vat: "truthy (js_oget (req_body rq) ''vatNumber'')"
    and token: "env_set env ''SHOPIFY_ADMIN_API_TOKEN''"
  shows
    "(\<exists>rest. snd (vat_handler P env fetch rq) = search_request P env rq # rest)
     \<and> (\<forall>sr. graphql_result P (fetch 0 (search_request P env rq)) = Inr sr \<longrightarrow>
          (no_customer sr \<longrightarrow>
             vat_handler P env fetch rq
               = (not_found_response P (js_oget (req_body rq) ''customerEmail''),
                  [search_request P env rq]))
          \<and> (\<forall>cid. \<not> no_customer sr \<and> customer_id sr = Inr cid \<longrightarrow>
                take 2 (snd (vat_handler P env fetch rq))
                  = [search_request P env rq, metafields_request P env rq cid]
                \<and> (\<forall>mr. graphql_result P (fetch 1 (metafields_request P env rq cid)) = Inr mr
                          \<and> metafield_failure P mr = None \<longrightarrow>
                      snd (vat_handler P env fetch rq)
                        = [search_request P env rq, metafields_request P env rq cid,
                           tag_request P env cid]
                      \<and> (\<forall>tr. graphql_result P (fetch 2 (tag_request P env cid)) = Inr tr
                            \<longrightarrow> fst (vat_handler P env fetch rq) = success_response))))
     \<and> status (not_found_response P (js_oget (req_body rq) ''customerEmail'')) = 404
     \<and> status success_response = 200
     \<and> js_oget (json success_response) ''success'' = JBool True
     \<and> metafield_variables cid' v n c
         = JObj [(''metafields'',
             JArr [JObj [(''ownerId'', cid'), (''namespace'', JStr ''custom''),
                         (''key'', JStr ''vat_number''),
                         (''type'', JStr ''single_line_text_field''), (''value'', v)],
                   JObj [(''ownerId'', cid'), (''namespace'', JStr ''custom''),
                         (''key'', JStr ''business_name''),
                         (''type'', JStr ''single_line_text_field''), (''value'', n)],
                   JObj [(''ownerId'', cid'), (''namespace'', JStr ''custom''),
                         (''key'', JStr ''business_country''),
                         (''type'', JStr ''single_line_text_field''), (''value'', c)]])]
     \<and> tag_variables cid' = JObj [(''id'', cid'), (''tags'', JArr [JStr ''No Vat Customers''])]"
proof -
  let ?d = "vat_shopDomain env" and ?t = "the (env ''SHOPIFY_ADMIN_API_TOKEN'')"
    and ?v = "vat_apiVersion env"
  let ?email = "js_oget (req_body rq) ''customerEmail''"
    and ?name = "js_oget (req_body rq) ''businessName''"
    and ?country = "js_oget (req_body rq) ''country''"
    and ?vat = "js_oget (req_body rq) ''vatNumber''"
  let ?search = "search_request P env rq"
  let ?step1 = "vat_step1 P fetch ?d ?t ?v ?email ?name ?country ?vat"
  note reqs = search_request_def metafields_request_def tag_request_def vat_request_def
  have vtry: "vat_try P env fetch rq = ?step1"
    using vat_try_valid [OF email name country vat token] .
  have issued: "snd (vat_handler P env fetch rq) = snd ?step1"
    using post vtry by (simp add: vat_handler_issued)
  have first: "\<exists>rest. snd (vat_handler P env fetch rq) = ?search # rest"
    using vat_step1_search [of P fetch ?d ?t ?v ?email ?name ?country ?vat]
    by (simp add: issued reqs)
  have rest: "(no_customer sr \<longrightarrow>
             vat_handler P env fetch rq = (not_found_response P ?email, [?search]))
          \<and> (\<forall>cid. \<not> no_customer sr \<and> customer_id sr = Inr cid \<longrightarrow>
                take 2 (snd (vat_handler P env fetch rq))
                  = [?search, metafields_request P env rq cid]
                \<and> (\<forall>mr. graphql_result P (fetch 1 (metafields_request P env rq cid)) = Inr mr
                          \<and> metafield_failure P mr = None \<longrightarrow>
                      snd (vat_handler P env fetch rq)
                        = [?search, metafields_request P env rq cid, tag_request P env cid]
                      \<and> (\<forall>tr. graphql_result P (fetch 2 (tag_request P env cid)) = Inr tr
                            \<longrightarrow> fst (vat_handler P env fetch rq) = success_response)))"
    if sr: "graphql_result P (fetch 0 ?search) = Inr sr" for sr
  proof (intro conjI impI allI)
    assume "no_customer sr"
    then have "?step1 = (Inr (not_found_response P ?email), [?search])"
      using sr by (simp add: vat_step1_def graphqlRequest_eq reqs)
    then show "vat_handler P env fetch rq = (not_found_response P ?email, [?search])"
      using post vtry by (simp add: vat_handler_def)
  next
    fix cid
    assume found: "\<not> no_customer sr \<and> customer_id sr = Inr cid"
    let ?mf = "metafields_request P env rq cid"
    let ?tag = "tag_request P env cid"
    let ?step2 = "vat_step2 P fetch ?d ?t ?v cid ?vat ?name ?country [?search]"
    have s1: "?step1 = ?step2"
      using sr found by (simp add: vat_step1_def graphqlRequest_eq reqs)
    have "snd ?step2 = [?search, ?mf] \<or> snd ?step2 = [?search, ?mf, ?tag]"
      using vat_step2_issued [of P fetch ?d ?t ?v cid ?vat ?name ?country "[?search]"]
      by (simp add: reqs)
    then show "take 2 (snd (vat_handler P env fetch rq)) = [?search, ?mf]"
      by (auto simp: issued s1)
    fix mr
    assume mr: "graphql_result P (fetch 1 ?mf) = Inr mr \<and> metafield_failure P mr = None"
    let ?step3 = "vat_step3 P fetch ?d ?t ?v cid [?search, ?mf]"
    have s2: "?step2 = ?step3"
      using mr by (simp add: vat_step2_def graphqlRequest_eq reqs)
    have "snd ?step3 = [?search, ?mf, ?tag]"
      using vat_step3_issued [of P fetch ?d ?t ?v cid "[?search, ?mf]"]
      by (simp add: tag_request_def vat_request_def)
    then show "snd (vat_handler P env fetch rq) = [?search, ?mf, ?tag]"
      by (simp add: issued s1 s2)
    fix tr
    assume tr: "graphql_result P (fetch 2 ?tag) = Inr tr"
    have "fst ?step3 = Inr success_response"
      using tr by (simp add: vat_step3_def graphqlRequest_eq tag_request_def vat_request_def
            numeral_2_eq_2)
    then have "fst (vat_try P env fetch rq) = Inr success_response"
      by (simp add: vtry s1 s2)
    then show "fst (vat_handler P env fetch rq) = success_response"
      using post by (cases "vat_try P env fetch rq") (simp add: vat_handler_def)
  qed
  have codes: "status (not_found_response P ?email) = 404
     \<and> status success_response = 200
     \<and> js_oget (json success_response) ''success'' = JBool True"
    by (simp add: not_found_response_def success_response_def js_oget_def)
  have vars: "metafield_variables cid' v n c
         = JObj [(''metafields'',
             JArr [JObj [(''ownerId'', cid'), (''namespace'', JStr ''custom''),
                         (''key'', JStr ''vat_number''),
                         (''type'', JStr ''single_line_text_field''), (''value'', v)],
                   JObj [(''ownerId'', cid'), (''namespace'', JStr ''custom''),
                         (''key'', JStr ''business_name''),
                         (''type'', JStr ''single_line_text_field''), (''value'', n)],
                   JObj [(''ownerId'', cid'), (''namespace'', JStr ''custom''),
                         (''key'', JStr ''business_country''),
                         (''type'', JStr ''single_line_text_field''), (''value'', c)]])]
     \<and> tag_variables cid' = JObj [(''id'', cid'), (''tags'', JArr [JStr ''No Vat Customers''])]"
    by (simp add: metafield_variables_def metafield_def tag_variables_def)
  from first rest codes vars show ?thesis by blast
qed

theorem vat_handler_sequence_witness:
  "req_method vat_submission = ''POST''
   \<and> truthy (js_oget (req_body vat_submission) ''customerEmail'')
   \<and> truthy (js_oget (req_body vat_submission) ''businessName'')
   \<and> truthy (js_oget (req_body vat_submission) ''country'')
   \<and> truthy (js_oget (req_body vat_submission) ''vatNumber'')
   \<and> env_set env_tokens ''SHOPIFY_ADMIN_API_TOKEN''
   \<and> customer_id (js_oget search_answer ''data'') = Inr (JStr ''gid://shopify/Customer/7'')
   \<and> js_gt0 P_vat (js_oget (js_oget (js_oget (js_oget tag_answer ''data'') ''tagsAdd'')
          ''userErrors'') ''length'')
   \<and> snd (vat_handler P_vat env_tokens fetch_vat vat_submission)
       = [search_request P_vat env_tokens vat_submission,
          metafields_request P_vat env_tokens vat_submission (JStr ''gid://shopify/Customer/7''),
          tag_request P_vat env_tokens (JStr ''gid://shopify/Customer/7'')]
   \<and> fst (vat_handler P_vat env_tokens fetch_vat vat_submission) = success_response"
proof -
  let ?cid = "JStr ''gid://shopify/Customer/7''"
  have h1: "req_method vat_submission = ''POST''" by code_simp
  have h2: "truthy (js_oget (req_body vat_submission) ''customerEmail'')" by code_simp
  have h3: "truthy (js_oget (req_body vat_submission) ''businessName'')" by code_simp
  have h4: "truthy (js_oget (req_body vat_submission) ''country'')" by code_simp
  have h5: "truthy (js_oget (req_body vat_submission) ''vatNumber'')" by code_simp
  have h6: "env_set env_tokens ''SHOPIFY_ADMIN_API_TOKEN''" by code_simp
  have s: "graphql_result P_vat (fetch_vat 0 (search_request P_vat env_tokens vat_submission))
             = Inr (js_oget search_answer ''data'')" by code_simp
  have f: "\<not> no_customer (js_oget search_answer ''data'')" by code_simp
  have c: "customer_id (js_oget search_answer ''data'') = Inr ?cid" by code_simp
  have m: "graphql_result P_vat
             (fetch_vat 1 (metafields_request P_vat env_tokens vat_submission ?cid))
             = Inr (js_oget metafields_answer ''data'')" by code_simp
  have n: "metafield_failure P_vat (js_oget metafields_answer ''data'') = None" by code_simp
  have t: "graphql_result P_vat (fetch_vat 2 (tag_request P_vat env_tokens ?cid))
             = Inr (js_oget tag_answer ''data'')" by code_simp
  have e: "js_gt0 P_vat (js_oget (js_oget (js_oget (js_oget tag_answer ''data'') ''tagsAdd'')
          ''userErrors'') ''length'')" by code_simp
  from vat_handler_sequence [OF h1 h2 h3 h4 h5 h6, of P_vat fetch_vat] s f c m n t
  have "snd (vat_handler P_vat env_tokens fetch_vat vat_submission)
       = [search_request P_vat env_tokens vat_submission,
          metafields_request P_vat env_tokens vat_submission ?cid,
          tag_request P_vat env_tokens ?cid]
     \<and> fst (vat_handler P_vat env_tokens fetch_vat vat_submission) = success_response"
    by blast
  with h1 h2 h3 h4 h5 h6 c e show ?thesis by blast
qed

subsection \<open>Determinism of the two handlers\<close>



subsection \<open>PKCE\<close>

text \<open>
  C4. In a native login whose discovery documents are available, the authorization URL
  that is opened carries as \<open>code_challenge\<close> the unpadded base64url encoding of the SHA-256
  digest of the verifier, with \<open>code_challenge_method\<close> \<open>S256\<close>; the verifier is the random
  string stored, inside the PKCE object, under the PKCE key; and, the stored object being
  read back as it was written, every token exchange \<open>handleOAuthCallback\<close> then posts
  carries exactly that verifier as \<open>code_verifier\<close>, and with the state of the login it does
  post one.
\<close>

theorem pkce_challenge_and_verifier:
  assumes native: "isNative dev"
    and oidc_ok: "oidc_or_fetch P dev s = Inr oidcJson"
    and cust_ok: "custApi_or_fetch P dev s = Inr custJson"
    and nonempty: "JSON_stringify P (login_pkce dev) \<noteq> []"
    and roundtrip: "JSON_parse P (JSON_stringify P (login_pkce dev)) = Inr (login_pkce dev)"
  shows
    "opened (startLogin P dev s)
       = opened s @ [js_String P (js_oget oidcJson ''authorization_endpoint'') @ ''?'' @
           URLSearchParams_toString P
             [(''client_id'', CUSTOMER_ACCOUNTS_CLIENT_ID), (''response_type'', ''code''),
              (''redirect_uri'', REDIRECT_URI),
              (''scope'', ''openid email customer-account-api:full''),
              (''state'', login_state dev), (''nonce'', login_nonce dev),
              (''code_challenge'',
                 base64url_unpadded (SHA256 P (TextEncoder_encode P (login_verifier dev)))),
              (''code_challenge_method'', ''S256'')]]
     \<and> prefs (startLogin P dev s) K_PKCE = Some (JSON_stringify P (login_pkce dev))
     \<and> js_oget (safeJsonParse P (the (prefs (startLogin P dev s) K_PKCE))) ''verifier''
         = JStr (login_verifier dev)
     \<and> (\<forall>dev' code state' s2.
           prefs s2 K_PKCE = prefs (startLogin P dev s) K_PKCE \<longrightarrow>
           (\<forall>p \<in> set (drop (length (posted s2))
                        (posted (snd (handleOAuthCallback P dev' code state' s2)))).
              snd p = URLSearchParams_toString P
                 [(''grant_type'', ''authorization_code''),
                  (''client_id'', CUSTOMER_ACCOUNTS_CLIENT_ID),
                  (''redirect_uri'', REDIRECT_URI),
                  (''code'', code),
                  (''code_verifier'', login_verifier dev)]))
     \<and> (\<forall>dev' code s2 oj.
           prefs s2 K_PKCE = prefs (startLogin P dev s) K_PKCE
           \<and> oidc_or_fetch P dev' s2 = Inr oj \<longrightarrow>
           posted (snd (handleOAuthCallback P dev' code (Some (login_state dev)) s2))
             = posted s2 @ [(js_oget oj ''token_endpoint'', URLSearchParams_toString P
                 [(''grant_type'', ''authorization_code''),
                  (''client_id'', CUSTOMER_ACCOUNTS_CLIENT_ID),
                  (''redirect_uri'', REDIRECT_URI),
                  (''code'', code),
                  (''code_verifier'', login_verifier dev)])])"
proof -
  let ?s' = "startLogin P dev s"
  let ?form = "\<lambda>code. URLSearchParams_toString P
                 [(''grant_type'', ''authorization_code''),
                  (''client_id'', CUSTOMER_ACCOUNTS_CLIENT_ID),
                  (''redirect_uri'', REDIRECT_URI),
                  (''code'', code),
                  (''code_verifier'', login_verifier dev)]"
  have url: "opened ?s'
       = opened s @ [js_String P (js_oget oidcJson ''authorization_endpoint'') @ ''?'' @
           URLSearchParams_toString P
             [(''client_id'', CUSTOMER_ACCOUNTS_CLIENT_ID), (''response_type'', ''code''),
              (''redirect_uri'', REDIRECT_URI),
              (''scope'', ''openid email customer-account-api:full''),
              (''state'', login_state dev), (''nonce'', login_nonce dev),
              (''code_challenge'',
                 base64url_unpadded (SHA256 P (TextEncoder_encode P (login_verifier dev)))),
              (''code_challenge_method'', ''S256'')]]"
    using startLogin_native(1) [OF native oidc_ok cust_ok]
    by (simp only: toQuery_authorization sha256Base64Url_eq)
  have stored: "prefs ?s' K_PKCE = Some (JSON_stringify P (login_pkce dev))"
    using startLogin_native(2) [OF native oidc_ok cust_ok] .
  have persisted: "js_oget (safeJsonParse P (the (prefs ?s' K_PKCE))) ''verifier''
         = JStr (login_verifier dev)"
    using roundtrip
    by (simp add: stored safeJsonParse_def login_pkce_def pkce_object_def js_oget_def)
  have sent: "\<forall>p \<in> set (drop (length (posted s2))
                        (posted (snd (handleOAuthCallback P dev' code state' s2)))).
              snd p = ?form code"
    if "prefs s2 K_PKCE = prefs ?s' K_PKCE" for dev' code state' s2
    using handleOAuthCallback_posted [of s2 P dev, OF _ nonempty roundtrip, of dev' code state']
      that stored by auto
  have posts: "posted (snd (handleOAuthCallback P dev' code (Some (login_state dev)) s2))
             = posted s2 @ [(js_oget oj ''token_endpoint'', ?form code)]"
    if "prefs s2 K_PKCE = prefs ?s' K_PKCE \<and> oidc_or_fetch P dev' s2 = Inr oj"
    for dev' code s2 oj
    using handleOAuthCallback_matching_state [of s2 P dev, OF _ nonempty roundtrip, of dev' oj code]
      that stored by simp
  from url stored persisted sent posts show ?thesis by blast
qed

theorem pkce_challenge_and_verifier_witness:
  "isNative device_example
   \<and> oidc_or_fetch P_pkce device_example app_saved = Inr discovery_document
   \<and> custApi_or_fetch P_pkce device_example app_saved = Inr discovery_document
   \<and> JSON_stringify P_pkce (login_pkce device_example) \<noteq> []
   \<and> JSON_parse P_pkce (JSON_stringify P_pkce (login_pkce device_example))
       = Inr (login_pkce device_example)
   \<and> prefs (startLogin P_pkce device_example app_saved) K_PKCE
       = Some (JSON_stringify P_pkce (login_pkce device_example))
   \<and> posted (snd (handleOAuthCallback P_pkce device_example ''code123''
                    (Some (login_state device_example))
                    (startLogin P_pkce device_example app_saved)))
       = posted (startLogin P_pkce device_example app_saved)
         @ [(js_oget discovery_document ''token_endpoint'', URLSearchParams_toString P_pkce
                 [(''grant_type'', ''authorization_code''),
                  (''client_id'', CUSTOMER_ACCOUNTS_CLIENT_ID),
                  (''redirect_uri'', REDIRECT_URI),
                  (''code'', ''code123''),
                  (''code_verifier'', login_verifier device_example)])]"
proof -
  have h1: "isNative device_example" by code_simp
  have h2: "oidc_or_fetch P_pkce device_example app_saved = Inr discovery_document"
    by code_simp
  have h3: "custApi_or_fetch P_pkce device_example app_saved = Inr discovery_document"
    by code_simp
  have eq: "login_pkce device_example = pkce_example"
    by (simp add: login_pkce_def pkce_example_def login_verifier_def login_state_def
          login_nonce_def)
  have str: "JSON_stringify P_pkce = stringify_example"
    by (simp add: P_pkce_def P_example_def)
  have h4: "JSON_stringify P_pkce (login_pkce device_example) \<noteq> []"
    by (simp add: str eq pkce_example_def pkce_object_def)
  have "stringify_example pkce_example \<noteq> ''discovery''"
    by (simp add: pkce_example_def pkce_object_def)
  then have h5: "JSON_parse P_pkce (JSON_stringify P_pkce (login_pkce device_example))
       = Inr (login_pkce device_example)"
    by (simp add: str eq) (simp add: P_pkce_def)
  have "truthy discovery_document" by (simp add: discovery_document_def)
  then have o: "oidc_or_fetch P_pkce device_example
                  (startLogin P_pkce device_example app_saved) = Inr discovery_document"
    using startLogin_native(3) [OF h1 h2 h3] by (simp add: oidc_or_fetch_def)
  note inst = pkce_challenge_and_verifier [OF h1 h2 h3 h4 h5]
  from inst have stored: "prefs (startLogin P_pkce device_example app_saved) K_PKCE
       = Some (JSON_stringify P_pkce (login_pkce device_example))" by blast
  from inst o have "posted (snd (handleOAuthCallback P_pkce device_example ''code123''
                    (Some (login_state device_example))
                    (startLogin P_pkce device_example app_saved)))
       = posted (startLogin P_pkce device_example app_saved)
         @ [(js_oget discovery_document ''token_endpoint'', URLSearchParams_toString P_pkce
                 [(''grant_type'', ''authorization_code''),
                  (''client_id'', CUSTOMER_ACCOUNTS_CLIENT_ID),
                  (''redirect_uri'', REDIRECT_URI),
                  (''code'', ''code123''),
                  (''code_verifier'', login_verifier device_example)])]"
    by blast
  with h1 h2 h3 h4 h5 stored show ?thesis by blast
qed

end
